theory Spec2Isabelle
  imports Main
begin

section \<open>pbcoretools task converters\<close>

text \<open>
  A shallow embedding of \<^verbatim>\<open>pbcoretools/tasks/converters.py\<close>: the three
  converters \<^verbatim>\<open>run_bax_to_bam\<close>, \<^verbatim>\<open>run_bam_to_bam\<close> and
  \<^verbatim>\<open>run_bam_to_fastx\<close>.

  The converters are glue around external programs and the pbcore dataset library.
  Everything they do to the outside is recorded, in order, in a trace of events; what
  the outside answers (the exit status of a process, the dataset found at a path,
  whether a file exists, the name of a fresh temporary file) is given by an environment
  of functions that see the trace so far. A converter takes the trace before the call
  and returns an outcome (a returned exit status or a raised exception) and the trace
  after the call.
\<close>

subsection \<open>Outcomes and events\<close>

datatype exn =
    ValueError string
  | NotImplementedError string
  | TypeError string
  | AssertionError string
  | IndexError string
  | IOError string

datatype outcome = Return int | Raise exn

text \<open>
  \<open>RunCmd c rc\<close>: \<^verbatim>\<open>run_cmd(c, ...)\<close> was called and gave exit status \<open>rc\<close>.
  \<open>MkTemp p\<close>: \<^verbatim>\<open>tempfile.NamedTemporaryFile\<close> handed out the name \<open>p\<close>.
  \<open>WriteTmp p d\<close>: the temporary input dataset \<open>d\<close> was written to \<open>p\<close>
  (\<^verbatim>\<open>ds_tmp.write\<close>).
  \<open>OpenOut p\<close>: a record writer was opened on \<open>p\<close>.
  \<open>WriteOut p d\<close>: \<open>d\<close> was written to the output \<open>p\<close> (\<^verbatim>\<open>ds.write\<close>,
  \<^verbatim>\<open>ds_new.write\<close>, \<^verbatim>\<open>fastx_out.writeRecord\<close>).
  \<open>Remove p\<close>: \<^verbatim>\<open>os.remove(p)\<close>.
\<close>

datatype 'd event =
    RunCmd string int
  | MkTemp string
  | LogInfo string
  | LogWarn string
  | LogError string
  | WriteTmp string 'd
  | OpenOut string
  | WriteOut string 'd
  | Remove string

fun is_RunCmd :: "'d event \<Rightarrow> bool" where
  "is_RunCmd (RunCmd c rc) = True"
| "is_RunCmd e = False"

fun is_WriteOut :: "'d event \<Rightarrow> bool" where
  "is_WriteOut (WriteOut p d) = True"
| "is_WriteOut e = False"

fun is_Remove :: "'d event \<Rightarrow> bool" where
  "is_Remove (Remove p) = True"
| "is_Remove e = False"

text \<open>Every process launched in a trace gave exit status 0.\<close>

definition no_fail_runs :: "'d event list \<Rightarrow> bool" where
  "no_fail_runs evs = (\<forall>c rc. RunCmd c rc \<in> set evs \<longrightarrow> rc = 0)"

text \<open>
  The operating system as the converters use it: \<^verbatim>\<open>run_cmd\<close> gives the exit status
  of a command line, \<^verbatim>\<open>NamedTemporaryFile\<close> the name of a temporary file for a
  suffix, \<^verbatim>\<open>isfile\<close> whether a path is a file. Calls into the operating system and
  into pbcore that the source does not guard are taken to return.
\<close>

record 'd os_env =
  run_cmd :: "string \<Rightarrow> 'd event list \<Rightarrow> int"
  NamedTemporaryFile :: "string \<Rightarrow> 'd event list \<Rightarrow> string"
  isfile :: "string \<Rightarrow> 'd event list \<Rightarrow> bool"

subsection \<open>Python string and path functions\<close>

text \<open>\<^verbatim>\<open>s.split(d)\<close> for a one-character separator: never the empty list.\<close>

fun split_on :: "char \<Rightarrow> string \<Rightarrow> string list" where
  "split_on d [] = [[]]"
| "split_on d (c # cs) =
     (if c = d then [] # split_on d cs
      else (case split_on d cs of
              x # xs \<Rightarrow> (c # x) # xs
            | [] \<Rightarrow> [[c]]))"

text \<open>\<^verbatim>\<open>sep.join(xs)\<close>.\<close>

fun join_str :: "string \<Rightarrow> string list \<Rightarrow> string" where
  "join_str sep [] = []"
| "join_str sep [x] = x"
| "join_str sep (x # y # ys) = x @ sep @ join_str sep (y # ys)"

text \<open>\<^verbatim>\<open>xs[:-2]\<close>: all but the last two elements, empty when there are fewer.\<close>

definition drop_last2 :: "'a list \<Rightarrow> 'a list" where
  "drop_last2 xs = take (length xs - 2) xs"

definition endswith :: "string \<Rightarrow> string \<Rightarrow> bool" where
  "endswith s suf = (length suf \<le> length s \<and> drop (length s - length suf) s = suf)"

text \<open>\<^verbatim>\<open>".".join(s.split(".")[:-2])\<close>, used twice in the source.\<close>

definition strip_two_ext :: "string \<Rightarrow> string" where
  "strip_two_ext s = join_str ''.'' (drop_last2 (split_on (CHR ''.'') s))"

text \<open>\<^verbatim>\<open>posixpath.basename\<close>: what follows the last slash.\<close>

definition basename :: "string \<Rightarrow> string" where
  "basename p = rev (takeWhile (\<lambda>c. c \<noteq> CHR ''/'') (rev p))"

text \<open>
  \<^verbatim>\<open>posixpath.dirname\<close>: what precedes the last slash, with that slash and the
  slashes before it stripped unless the head is made of slashes only.
\<close>

definition dirname :: "string \<Rightarrow> string" where
  "dirname p =
     (let head = rev (dropWhile (\<lambda>c. c \<noteq> CHR ''/'') (rev p))
      in if head \<noteq> [] \<and> \<not> (\<forall>c \<in> set head. c = CHR ''/'')
         then rev (dropWhile (\<lambda>c. c = CHR ''/'') (rev head))
         else head)"

text \<open>\<^verbatim>\<open>posixpath.join(a, b)\<close> with two arguments.\<close>

definition path_join :: "string \<Rightarrow> string \<Rightarrow> string" where
  "path_join a b =
     (if b \<noteq> [] \<and> hd b = CHR ''/'' then b
      else if a = [] \<or> last a = CHR ''/'' then a @ b
      else a @ ''/'' @ b)"

definition isabs :: "string \<Rightarrow> bool" where
  "isabs s = (s \<noteq> [] \<and> hd s = CHR ''/'')"

text \<open>\<^verbatim>\<open>str(n)\<close> for an integer.\<close>

fun str_nat :: "nat \<Rightarrow> string" where
  "str_nat n =
     (if n < 10 then [''0123456789'' ! n]
      else str_nat (n div 10) @ [''0123456789'' ! (n mod 10)])"

declare str_nat.simps [simp del]

definition str_int :: "int \<Rightarrow> string" where
  "str_int i = (if i < 0 then CHR ''-'' # str_nat (nat (- i)) else str_nat (nat i))"

text \<open>
  \<^verbatim>\<open>re.sub(pattern, repl, s)\<close> for the patterns of the source, \<^verbatim>\<open>".subreads.bam"\<close>
  and \<^verbatim>\<open>"bam2"\<close>: non-empty, made of ordinary characters and of the dot, which
  as a regular expression stands for any character but the newline. The string is
  scanned from the left; where the pattern matches, the replacement is emitted and the
  scan goes on after the match (the counter is the number of matched characters still
  to skip), elsewhere the character is kept. The pattern is not anchored.
\<close>

fun match_here :: "string \<Rightarrow> string \<Rightarrow> bool" where
  "match_here [] s = True"
| "match_here (p # ps) [] = False"
| "match_here (p # ps) (c # cs) =
     ((if p = CHR ''.'' then c \<noteq> CHR 0x0A else c = p) \<and> match_here ps cs)"

fun re_sub_from :: "string \<Rightarrow> string \<Rightarrow> nat \<Rightarrow> string \<Rightarrow> string" where
  "re_sub_from pat repl k [] = []"
| "re_sub_from pat repl (Suc k) (c # cs) = re_sub_from pat repl k cs"
| "re_sub_from pat repl 0 (c # cs) =
     (if match_here pat (c # cs) then repl @ re_sub_from pat repl (length pat - 1) cs
      else c # re_sub_from pat repl 0 cs)"

definition re_sub :: "string \<Rightarrow> string \<Rightarrow> string \<Rightarrow> string" where
  "re_sub pat repl s = re_sub_from pat repl 0 s"

subsection \<open>Datasets of the multi-movie merger\<close>

text \<open>
  What the merger reads and writes of a pbcore dataset (\<^verbatim>\<open>HdfSubreadSet\<close>,
  \<^verbatim>\<open>SubreadSet\<close>): its name, the object metadata dictionary, the metadata block,
  the movie name of each resource reader, the external files, and whether
  \<^verbatim>\<open>assertIndexed\<close> passes. The metadata block is opaque.
\<close>

record 'm dataset =
  name :: string
  objMetadata :: "string \<rightharpoonup> string"
  metadata :: 'm
  movieNames :: "string list"
  toExternalFiles :: "string list"
  isIndexed :: bool

text \<open>
  The pbcore constructors, given the paths and the trace so far, and the merge of two
  metadata blocks (\<^verbatim>\<open>ds.metadata.merge(other)\<close>, returning the merged block).
\<close>

record 'm bax_env = "'m dataset os_env" +
  HdfSubreadSet :: "string list \<Rightarrow> 'm dataset event list \<Rightarrow> 'm dataset"
  SubreadSet :: "string list \<Rightarrow> 'm dataset event list \<Rightarrow> 'm dataset"
  merge :: "'m \<Rightarrow> 'm \<Rightarrow> 'm"

subsection \<open>The single-file converter\<close>

text \<open>The command line of \<^verbatim>\<open>_run_bax_to_bam\<close>, joined with spaces.\<close>

definition bax2bam_cmd :: "string \<Rightarrow> string \<Rightarrow> string" where
  "bax2bam_cmd output_file_name input_file_name_tmp =
     join_str '' ''
       [''bax2bam'', ''--subread'',
        ''-o'', strip_two_ext output_file_name,
        ''--output-xml'', output_file_name,
        ''--xml'', input_file_name_tmp]"

text \<open>
  \<^verbatim>\<open>_run_bax_to_bam\<close> (an Isabelle name cannot start with an underscore). A raw
  \<^verbatim>\<open>.bax.h5\<close> input is first wrapped in a temporary dataset file. A non-zero exit
  status is returned as it is; otherwise the output dataset is opened and
  \<^verbatim>\<open>assertIndexed\<close> raises when it is not indexed.
\<close>

definition u_run_bax_to_bam ::
  "('m, 'z) bax_env_scheme \<Rightarrow> string \<Rightarrow> string \<Rightarrow> 'm dataset event list
     \<Rightarrow> outcome \<times> 'm dataset event list" where
  "u_run_bax_to_bam env input_file_name output_file_name tr =
     (let (input_file_name_tmp, tr1) =
            (if endswith input_file_name ''.bax.h5''
             then (let tmp = NamedTemporaryFile env ''.hdfsubreadset.xml'' tr;
                       tr0 = tr @ [MkTemp tmp];
                       ds_tmp = HdfSubreadSet env [input_file_name] tr0
                   in (tmp, tr0 @ [WriteTmp tmp ds_tmp]))
             else (input_file_name, tr));
          cmd = bax2bam_cmd output_file_name input_file_name_tmp;
          tr2 = tr1 @ [LogInfo cmd];
          rc = run_cmd env cmd tr2;
          tr3 = tr2 @ [RunCmd cmd rc]
      in if rc \<noteq> 0 then (Return rc, tr3)
         else if isIndexed (SubreadSet env [output_file_name] tr3) then (Return 0, tr3)
         else (Raise (IOError ''File not indexed''), tr3))"

subsection \<open>The multi-movie merger\<close>

text \<open>The path of the intermediate dataset of one raw file.\<close>

definition output_file_name_tmp :: "string \<Rightarrow> string \<Rightarrow> string" where
  "output_file_name_tmp out_dir bax_file =
     path_join out_dir (strip_two_ext (basename bax_file) @ ''.hdfsubreadset.xml'')"

text \<open>
  The loop over \<^verbatim>\<open>ds_in.toExternalFiles()\<close>: \<open>Inr\<close> the intermediate dataset
  paths when every conversion returned 0, \<open>Inl\<close> the outcome that left the loop.
\<close>

fun fan_out ::
  "('m, 'z) bax_env_scheme \<Rightarrow> string \<Rightarrow> string list \<Rightarrow> string list
     \<Rightarrow> 'm dataset event list \<Rightarrow> (outcome + string list) \<times> 'm dataset event list" where
  "fan_out env out_dir [] ds_out_files tr = (Inr ds_out_files, tr)"
| "fan_out env out_dir (bax_file # rest) ds_out_files tr =
     (case u_run_bax_to_bam env bax_file (output_file_name_tmp out_dir bax_file) tr of
        (Return rc, tr') \<Rightarrow>
          if rc \<noteq> 0 then (Inl (Return rc), tr' @ [LogError ''bax2bam failed''])
          else fan_out env out_dir rest
                 (ds_out_files @ [output_file_name_tmp out_dir bax_file]) tr'
      | (Raise e, tr') \<Rightarrow> (Inl (Raise e), tr'))"

text \<open>Lines 74 to 78: the merged dataset, from the one just constructed.\<close>

definition merged_dataset ::
  "('m, 'z) bax_env_scheme \<Rightarrow> 'm dataset \<Rightarrow> 'm dataset \<Rightarrow> 'm dataset" where
  "merged_dataset env ds_in ds =
     (let ds1 = ds\<lparr>name := name ds_in\<rparr>
      in case objMetadata ds_in ''Description'' of
           Some v \<Rightarrow>
             ds1\<lparr>objMetadata := (objMetadata ds1)(''Description'' \<mapsto> v),
                 metadata := merge env (metadata ds1) (metadata ds_in)\<rparr>
         | None \<Rightarrow> ds1)"

definition run_bax_to_bam ::
  "('m, 'z) bax_env_scheme \<Rightarrow> string \<Rightarrow> string \<Rightarrow> 'm dataset event list
     \<Rightarrow> outcome \<times> 'm dataset event list" where
  "run_bax_to_bam env input_file_name output_file_name tr =
     (let ds_in = HdfSubreadSet env [input_file_name] tr;
          movies = set (movieNames ds_in)
      in if card movies > 1
         then (let out_dir = dirname output_file_name
               in case fan_out env out_dir (toExternalFiles ds_in) [] tr of
                    (Inl oc, tr') \<Rightarrow> (oc, tr')
                  | (Inr ds_out_files, tr') \<Rightarrow>
                      (let ds = merged_dataset env ds_in (SubreadSet env ds_out_files tr')
                       in (Return 0, tr' @ [WriteOut output_file_name ds])))
         else u_run_bax_to_bam env input_file_name output_file_name tr)"

subsection \<open>The barcoded-resource rebuilder\<close>

text \<open>
  Of an external resource of the input dataset the rebuilder reads \<^verbatim>\<open>ext_res.bam\<close>
  and \<^verbatim>\<open>ext_res.scraps\<close>, either of which may be \<^verbatim>\<open>None\<close>; of the input
  dataset, its external resources and its filters (opaque); of the barcode set, its
  resource readers (one for each reference file, named by that file here) and its
  external files.
\<close>

record ext_res =
  bam :: "string option"
  scraps :: "string option"

record 'f subread_set =
  externalResources :: "ext_res list"
  filters :: 'f

record barcode_set =
  bc_resourceReaders :: "string list"
  bc_toExternalFiles :: "string list"

text \<open>A node of the resource tree that the rebuilder constructs.\<close>

datatype external_resource =
  ExternalResource (resourceId: string) (metaType: string) (indices: "string list")
    (children: "external_resource list")

record 'f new_subread_set =
  new_externalResources :: "external_resource list"
  new_filters :: 'f

text \<open>
  The pbcore operations of the rebuilder: \<^verbatim>\<open>BarcodeSet(path)\<close>,
  \<^verbatim>\<open>SubreadSet(path)\<close> on the input, \<^verbatim>\<open>_filters.clearCallbacks()\<close>,
  \<^verbatim>\<open>_populateMetaTypes()\<close> and \<^verbatim>\<open>updateCounts()\<close>.
\<close>

record 'f bam_env = "'f new_subread_set os_env" +
  BarcodeSet :: "string \<Rightarrow> 'f new_subread_set event list \<Rightarrow> barcode_set"
  SubreadSet_in :: "string \<Rightarrow> 'f new_subread_set event list \<Rightarrow> 'f subread_set"
  clearCallbacks :: "'f \<Rightarrow> 'f"
  populateMetaTypes :: "'f new_subread_set \<Rightarrow> 'f new_subread_set"
  updateCounts ::
    "'f new_subread_set \<Rightarrow> 'f new_subread_set event list \<Rightarrow> 'f new_subread_set"

text \<open>Lines 101 and 102.\<close>

definition new_prefix :: "string \<Rightarrow> string \<Rightarrow> string" where
  "new_prefix output_file_name subreads_bam =
     path_join (dirname output_file_name)
       (re_sub ''.subreads.bam'' ''_barcoded'' (basename subreads_bam))"

text \<open>Lines 103 to 107: a relative path is taken from the directory of the input.\<close>

definition resolve :: "string \<Rightarrow> string \<Rightarrow> string" where
  "resolve subread_set_file p =
     (if \<not> isabs p then path_join (dirname subread_set_file) p else p)"

definition bam2bam_cmd ::
  "int \<Rightarrow> string \<Rightarrow> string \<Rightarrow> string \<Rightarrow> string \<Rightarrow> string \<Rightarrow> string" where
  "bam2bam_cmd nproc prefix barcode_fasta score_mode subreads_bam scraps_bam =
     join_str '' ''
       [''bam2bam'',
        ''-j'', str_int nproc,
        ''-b'', str_int nproc,
        ''-o'', prefix,
        ''--barcodes'', barcode_fasta,
        ''--scoreMode'', score_mode,
        subreads_bam, scraps_bam]"

text \<open>Lines 123 to 141: the node for one split pair.\<close>

definition new_resource :: "string \<Rightarrow> string \<Rightarrow> external_resource" where
  "new_resource prefix barcode_set_file =
     (let subreads_bam = prefix @ ''.subreads.bam'';
          scraps_bam = prefix @ ''.scraps.bam''
      in ExternalResource subreads_bam ''PacBio.SubreadFile.SubreadBamFile''
           [subreads_bam @ ''.pbi'']
           [ExternalResource scraps_bam ''PacBio.SubreadFile.ScrapsBamFile''
              [scraps_bam @ ''.pbi''] [],
            ExternalResource barcode_set_file ''PacBio.DataSet.BarcodeSet'' [] []])"

text \<open>
  The loop over \<^verbatim>\<open>ds.externalResources\<close>: \<open>Inr\<close> the new resources when every
  pair was split, \<open>Inl\<close> the outcome that left the loop.
\<close>

fun rebuild ::
  "('f, 'z) bam_env_scheme \<Rightarrow> string \<Rightarrow> string \<Rightarrow> string \<Rightarrow> int \<Rightarrow> string \<Rightarrow> string
     \<Rightarrow> ext_res list \<Rightarrow> external_resource list \<Rightarrow> 'f new_subread_set event list
     \<Rightarrow> (outcome + external_resource list) \<times> 'f new_subread_set event list" where
  "rebuild env subread_set_file barcode_set_file output_file_name nproc score_mode
     barcode_fasta [] acc tr = (Inr acc, tr)"
| "rebuild env subread_set_file barcode_set_file output_file_name nproc score_mode
     barcode_fasta (ext_res # rest) acc tr =
     (case bam ext_res of
        None \<Rightarrow> (Inl (Raise (AssertionError [])), tr)
      | Some subreads_bam \<Rightarrow>
         (case scraps ext_res of
            None \<Rightarrow> (Inl (Raise (TypeError ''The input SubreadSet must include scraps.'')), tr)
          | Some scraps_bam \<Rightarrow>
             (let prefix = new_prefix output_file_name subreads_bam;
                  cmd = bam2bam_cmd nproc prefix barcode_fasta score_mode
                          (resolve subread_set_file subreads_bam)
                          (resolve subread_set_file scraps_bam);
                  tr1 = tr @ [LogInfo cmd];
                  rc = run_cmd env cmd tr1;
                  tr2 = tr1 @ [RunCmd cmd rc]
              in if rc \<noteq> 0 then (Inl (Return rc), tr2)
                 else if \<not> isfile env (prefix @ ''.subreads.bam'') tr2
                 then (Inl (Raise (AssertionError (''Missing '' @ prefix @ ''.subreads.bam''))),
                       tr2)
                 else rebuild env subread_set_file barcode_set_file output_file_name nproc
                        score_mode barcode_fasta rest
                        (acc @ [new_resource prefix barcode_set_file]) tr2)))"

definition run_bam_to_bam ::
  "('f, 'z) bam_env_scheme \<Rightarrow> string \<Rightarrow> string \<Rightarrow> string \<Rightarrow> int \<Rightarrow> string
     \<Rightarrow> 'f new_subread_set event list \<Rightarrow> outcome \<times> 'f new_subread_set event list" where
  "run_bam_to_bam env subread_set_file barcode_set_file output_file_name nproc score_mode tr =
     (if score_mode \<notin> set [''asymmetric'', ''symmetric'']
      then (Raise (ValueError
              (''Unrecognized score mode '' @ [CHR 0x27] @ score_mode @ [CHR 0x27])), tr)
      else (let bc = BarcodeSet env barcode_set_file tr
            in if length (bc_resourceReaders bc) > 1
               then (Raise (NotImplementedError
                       ''Multi-FASTA BarcodeSet input is not supported.''), tr)
               else (case bc_toExternalFiles bc of
                       [] \<Rightarrow> (Raise (IndexError ''list index out of range''), tr)
                     | barcode_fasta # others \<Rightarrow>
                        (let ds = SubreadSet_in env subread_set_file tr
                         in case rebuild env subread_set_file barcode_set_file
                                   output_file_name nproc score_mode barcode_fasta
                                   (externalResources ds) [] tr of
                              (Inl oc, tr') \<Rightarrow> (oc, tr')
                            | (Inr resources, tr') \<Rightarrow>
                               (let ds_new = \<lparr>new_externalResources = resources,
                                              new_filters = clearCallbacks env (filters ds)\<rparr>;
                                    ds_out = updateCounts env (populateMetaTypes env ds_new) tr'
                                in (Return 0, tr' @ [WriteOut output_file_name ds_out]))))))"

subsection \<open>The extraction filter\<close>

text \<open>
  A parsed record; a FASTQ record extends it with its qualities. The raw file is
  opened by \<^verbatim>\<open>gzip.open\<close> or \<^verbatim>\<open>open\<close>, giving a handle; the reader class,
  an argument of the converter, turns the handle into the records it iterates over.
  The writer class is seen through its events: \<open>OpenOut\<close> when it is opened on the
  output file, \<open>WriteOut\<close> for each \<^verbatim>\<open>writeRecord\<close>.
\<close>

record fastx_record =
  header :: string
  sequence :: string

record ('h, 'z) fastx_env = "'z fastx_record_scheme os_env" +
  gzip_open :: "string \<Rightarrow> 'z fastx_record_scheme event list \<Rightarrow> 'h"
  py_open :: "string \<Rightarrow> 'z fastx_record_scheme event list \<Rightarrow> 'h"

definition u_open_file ::
  "('h, 'z, 'y) fastx_env_scheme \<Rightarrow> string \<Rightarrow> 'z fastx_record_scheme event list \<Rightarrow> 'h" where
  "u_open_file env file_name tr =
     (if endswith file_name ''.gz'' then gzip_open env file_name tr
      else py_open env file_name tr)"

text \<open>Lines 188 to 191: the loop over the parsed records.\<close>

fun write_records ::
  "string \<Rightarrow> int \<Rightarrow> 'z fastx_record_scheme list \<Rightarrow> 'z fastx_record_scheme event list
     \<Rightarrow> 'z fastx_record_scheme event list" where
  "write_records output_file_name min_subread_length [] tr = tr"
| "write_records output_file_name min_subread_length (rec # recs) tr =
     write_records output_file_name min_subread_length recs
       (if min_subread_length < 1 \<or> min_subread_length < int (length (sequence rec))
        then tr @ [WriteOut output_file_name rec] else tr)"

text \<open>
  Lines 170 and 171: the name of the raw output of the external program. The program
  name is a string here, so the \<^verbatim>\<open>isinstance\<close> assertion of line 155 holds.
\<close>

definition tmp_out_name :: "string \<Rightarrow> string \<Rightarrow> string" where
  "tmp_out_name tmp_out_prefix program_name =
     tmp_out_prefix @ ''.'' @ re_sub ''bam2'' [] program_name @ ''.gz''"

definition run_bam_to_fastx ::
  "('h, 'z, 'y) fastx_env_scheme \<Rightarrow> string \<Rightarrow> ('h \<Rightarrow> 'z fastx_record_scheme list)
     \<Rightarrow> string \<Rightarrow> string \<Rightarrow> int \<Rightarrow> 'z fastx_record_scheme event list
     \<Rightarrow> outcome \<times> 'z fastx_record_scheme event list" where
  "run_bam_to_fastx env program_name fastx_reader input_file_name output_file_name
     min_subread_length tr =
     (let tmp_out_prefix = NamedTemporaryFile env [] tr;
          tr0 = tr @ [MkTemp tmp_out_prefix];
          cmd = join_str '' '' [program_name, ''-o'', tmp_out_prefix, input_file_name];
          tr1 = tr0 @ [LogInfo cmd];
          rc = run_cmd env cmd tr1;
          tr2 = tr1 @ [RunCmd cmd rc]
      in if rc \<noteq> 0 then (Return rc, tr2)
         else (let tmp_out = tmp_out_name tmp_out_prefix program_name
               in if \<not> isfile env tmp_out tr2 then (Raise (AssertionError tmp_out), tr2)
                  else (let tr3 = tr2 @ [LogInfo (''raw output in '' @ tmp_out)];
                            tr4 = (if min_subread_length > 0
                                   then tr3 @ [LogInfo (''Filtering subreads by minimum length = ''
                                                 @ str_int min_subread_length)]
                                   else if min_subread_length < 0
                                   then tr3 @ [LogWarn (''min_subread_length = ''
                                                 @ str_int min_subread_length @ '', ignoring'')]
                                   else tr3);
                            raw_in = u_open_file env tmp_out tr4;
                            fastx_in = fastx_reader raw_in;
                            tr5 = tr4 @ [OpenOut output_file_name];
                            tr6 = write_records output_file_name min_subread_length fastx_in tr5
                        in (Return 0, tr6 @ [Remove tmp_out]))))"

section \<open>Example environments\<close>

subsection \<open>For the multi-movie merger\<close>

text \<open>
  Three input datasets: two raw files of two movies, with a description; two raw files
  of one movie; no resource at all. The metadata block is a number and merging adds.
\<close>

definition ex_ds_in :: "nat dataset" where
  "ex_ds_in = \<lparr>name = ''lambda_rsii'', objMetadata = [''Description'' \<mapsto> ''two movies''],
     metadata = 1, movieNames = [''m1'', ''m2''],
     toExternalFiles = [''/d/m1.1.bax.h5'', ''/d/m2.1.bax.h5''], isIndexed = True\<rparr>"

definition ex_ds_one :: "nat dataset" where
  "ex_ds_one = \<lparr>name = ''one'', objMetadata = Map.empty,
     metadata = 2, movieNames = [''m1'', ''m1''],
     toExternalFiles = [''/d/m1.1.bax.h5'', ''/d/m1.2.bax.h5''], isIndexed = True\<rparr>"

definition ex_ds_none :: "nat dataset" where
  "ex_ds_none = \<lparr>name = ''none'', objMetadata = Map.empty,
     metadata = 3, movieNames = [], toExternalFiles = [], isIndexed = True\<rparr>"

definition ex_ds_fresh :: "string list \<Rightarrow> nat dataset" where
  "ex_ds_fresh ps = \<lparr>name = ''fresh'', objMetadata = Map.empty,
     metadata = 10, movieNames = [], toExternalFiles = ps, isIndexed = True\<rparr>"

definition ex_bax_env :: "(string \<Rightarrow> nat dataset event list \<Rightarrow> int) \<Rightarrow> nat bax_env" where
  "ex_bax_env run =
     \<lparr>run_cmd = run,
      NamedTemporaryFile = (\<lambda>suffix tr. ''/tmp/t'' @ suffix),
      isfile = (\<lambda>p tr. True),
      HdfSubreadSet = (\<lambda>ps tr. if ps = [''/in/two.xml''] then ex_ds_in
                               else if ps = [''/in/one.xml''] then ex_ds_one
                               else ex_ds_none),
      SubreadSet = (\<lambda>ps tr. ex_ds_fresh ps),
      merge = (\<lambda>a b. a + b)\<rparr>"

text \<open>Every process launched succeeds.\<close>

definition ex_ok :: "string \<Rightarrow> 'd event list \<Rightarrow> int" where
  "ex_ok c tr = 0"

text \<open>The first process launched succeeds, every later one exits with status 3.\<close>

definition ex_fail_second :: "string \<Rightarrow> 'd event list \<Rightarrow> int" where
  "ex_fail_second c tr = (if filter is_RunCmd tr = [] then 0 else 3)"

subsection \<open>For the barcoded-resource rebuilder\<close>

text \<open>
  A complete resource pair with relative paths and a pair without scraps. The barcode
  set \<^verbatim>\<open>/bc/two.xml\<close> has two reference files, any other has one. The input
  dataset \<^verbatim>\<open>/in/missing.xml\<close> holds the complete pair followed by the pair without
  scraps, any other holds the complete pair twice. Every expected file exists.
\<close>

definition ex_pair :: ext_res where
  "ex_pair = \<lparr>bam = Some ''m1.subreads.bam'', scraps = Some ''m1.scraps.bam''\<rparr>"

definition ex_pair_no_scraps :: ext_res where
  "ex_pair_no_scraps = \<lparr>bam = Some ''/d/m2.subreads.bam'', scraps = None\<rparr>"

definition ex_bam_env ::
  "(string \<Rightarrow> nat new_subread_set event list \<Rightarrow> int) \<Rightarrow> nat bam_env" where
  "ex_bam_env run =
     \<lparr>run_cmd = run,
      NamedTemporaryFile = (\<lambda>suffix tr. ''/tmp/t'' @ suffix),
      isfile = (\<lambda>p tr. True),
      BarcodeSet = (\<lambda>p tr. if p = ''/bc/two.xml''
                            then \<lparr>bc_resourceReaders = [''/bc/a.fasta'', ''/bc/b.fasta''],
                                  bc_toExternalFiles = [''/bc/a.fasta'', ''/bc/b.fasta'']\<rparr>
                            else \<lparr>bc_resourceReaders = [''/bc/b.fasta''],
                                  bc_toExternalFiles = [''/bc/b.fasta'']\<rparr>),
      SubreadSet_in = (\<lambda>p tr. if p = ''/in/missing.xml''
                               then \<lparr>externalResources = [ex_pair, ex_pair_no_scraps],
                                     filters = 7\<rparr>
                               else \<lparr>externalResources = [ex_pair, ex_pair], filters = 7\<rparr>),
      clearCallbacks = (\<lambda>f. f),
      populateMetaTypes = (\<lambda>d. d),
      updateCounts = (\<lambda>d tr. d)\<rparr>"

subsection \<open>For the extraction filter\<close>

text \<open>
  The raw output holds three records, of lengths 50, 150 and 300; the handle of an
  opened file is the list of its records and the reader is the identity. Every
  expected file exists.
\<close>

definition ex_records :: "fastx_record list" where
  "ex_records =
     [\<lparr>header = ''r50'', sequence = replicate 50 (CHR ''A'')\<rparr>,
      \<lparr>header = ''r150'', sequence = replicate 150 (CHR ''C'')\<rparr>,
      \<lparr>header = ''r300'', sequence = replicate 300 (CHR ''G'')\<rparr>]"

definition ex_fastx_env ::
  "(string \<Rightarrow> fastx_record event list \<Rightarrow> int) \<Rightarrow> (fastx_record list, unit) fastx_env" where
  "ex_fastx_env run =
     \<lparr>run_cmd = run,
      NamedTemporaryFile = (\<lambda>suffix tr. ''/tmp/t'' @ suffix),
      isfile = (\<lambda>p tr. True),
      gzip_open = (\<lambda>p tr. ex_records),
      py_open = (\<lambda>p tr. [])\<rparr>"

text \<open>Every process launched exits with status 1.\<close>

definition ex_fail_first :: "string \<Rightarrow> 'd event list \<Rightarrow> int" where
  "ex_fail_first c tr = 1"

section \<open>Properties of the multi-movie merger\<close>

subsection \<open>Traces of the converter and of the fan-out\<close>

lemma u_run_bax_to_bam_trace:
  assumes "u_run_bax_to_bam env i outp tr = (oc, tr')"
  shows "\<exists>pre rc. tr' = tr @ pre @
             [RunCmd (bax2bam_cmd outp
                (if endswith i ''.bax.h5'' then NamedTemporaryFile env ''.hdfsubreadset.xml'' tr
                 else i)) rc]
           \<and> filter is_RunCmd pre = [] \<and> filter is_WriteOut pre = []
           \<and> (\<not> endswith i ''.bax.h5'' \<longrightarrow> pre = [LogInfo (bax2bam_cmd outp i)])
           \<and> (rc \<noteq> 0 \<longrightarrow> oc = Return rc)
           \<and> (rc = 0 \<longrightarrow> oc = Return 0 \<or> (\<exists>e. oc = Raise e))"
  using assms
  by (auto simp: u_run_bax_to_bam_def Let_def split: if_splits prod.splits)

lemma fan_out_trace:
  "fan_out env d files acc tr = (res, tr') \<Longrightarrow>
   \<exists>new. tr' = tr @ new \<and> filter is_WriteOut new = [] \<and>
     (case res of
        Inr fs \<Rightarrow> no_fail_runs new
      | Inl (Return rc) \<Rightarrow> rc \<noteq> 0 \<and>
          (\<exists>pre c. new = pre @ [RunCmd c rc, LogError ''bax2bam failed''] \<and> no_fail_runs pre)
      | Inl (Raise e) \<Rightarrow> no_fail_runs new)"
proof (induction files arbitrary: acc tr)
  case Nil
  then show ?case by (auto simp: no_fail_runs_def)
next
  case (Cons f rest)
  obtain oc1 tr1 where u: "u_run_bax_to_bam env f (output_file_name_tmp d f) tr = (oc1, tr1)"
    by (cases "u_run_bax_to_bam env f (output_file_name_tmp d f) tr")
  from u_run_bax_to_bam_trace[OF u] obtain pre cmd rc where
    tr1: "tr1 = tr @ pre @ [RunCmd cmd rc]" and nr: "filter is_RunCmd pre = []"
    and nw: "filter is_WriteOut pre = []" and f1: "rc \<noteq> 0 \<longrightarrow> oc1 = Return rc"
    and f2: "rc = 0 \<longrightarrow> oc1 = Return 0 \<or> (\<exists>e. oc1 = Raise e)" by blast
  have npre: "no_fail_runs pre"
    using nr unfolding no_fail_runs_def
    by (metis filter_empty_conv is_RunCmd.simps(1))
  show ?case
  proof (cases "rc = 0")
    case False
    with f1 have oc1: "oc1 = Return rc" by simp
    with Cons.prems u False
    have "res = Inl (Return rc)" "tr' = tr1 @ [LogError ''bax2bam failed'']"
      by auto
    then show ?thesis using tr1 nw npre False by auto
  next
    case True
    note rc0 = True
    from f2 True consider "oc1 = Return 0" | e where "oc1 = Raise e" by blast
    then show ?thesis
    proof cases
      case 1
      with Cons.prems u
      have step: "fan_out env d rest (acc @ [output_file_name_tmp d f]) tr1 = (res, tr')"
        by simp
      from Cons.IH[OF step] obtain new where
        n1: "tr' = tr1 @ new" and n2: "filter is_WriteOut new = []" and
        n3: "(case res of
                Inr fs \<Rightarrow> no_fail_runs new
              | Inl (Return rc) \<Rightarrow> rc \<noteq> 0 \<and>
                  (\<exists>pre c. new = pre @ [RunCmd c rc, LogError ''bax2bam failed'']
                     \<and> no_fail_runs pre)
              | Inl (Raise e) \<Rightarrow> no_fail_runs new)" by blast
      let ?all = "pre @ [RunCmd cmd rc] @ new"
      have h: "no_fail_runs (pre @ [RunCmd cmd rc])"
        using npre rc0 by (auto simp: no_fail_runs_def)
      have t: "tr' = tr @ ?all" using n1 tr1 by simp
      have w: "filter is_WriteOut ?all = []" using nw n2 by simp
      have c: "(case res of
                  Inr fs \<Rightarrow> no_fail_runs ?all
                | Inl (Return rc') \<Rightarrow> rc' \<noteq> 0 \<and>
                    (\<exists>pre' c. ?all = pre' @ [RunCmd c rc', LogError ''bax2bam failed'']
                       \<and> no_fail_runs pre')
                | Inl (Raise e) \<Rightarrow> no_fail_runs ?all)"
      proof (cases res)
        case (Inr fs)
        then show ?thesis using n3 h by (auto simp: no_fail_runs_def)
      next
        case (Inl oc)
        show ?thesis
        proof (cases oc)
          case (Raise e)
          then show ?thesis using Inl n3 h by (auto simp: no_fail_runs_def)
        next
          case (Return r)
          with Inl n3 obtain p c where r0: "r \<noteq> 0" and
             nn: "new = p @ [RunCmd c r, LogError ''bax2bam failed'']" and np: "no_fail_runs p"
            by auto
          have "?all = (pre @ [RunCmd cmd rc] @ p) @ [RunCmd c r, LogError ''bax2bam failed'']"
            using nn by simp
          moreover have "no_fail_runs (pre @ [RunCmd cmd rc] @ p)"
            using h np by (auto simp: no_fail_runs_def)
          ultimately show ?thesis using Inl Return r0 by auto
        qed
      qed
      show ?thesis using t w c by blast
    next
      case 2
      with Cons.prems u have "res = Inl (Raise e)" "tr' = tr1" by auto
      then show ?thesis using tr1 nw npre rc0 by (auto simp: no_fail_runs_def)
    qed
  qed
qed

lemma ex_two_multi:
  "1 < card (set (movieNames (HdfSubreadSet (ex_bax_env run) [''/in/two.xml''] [])))"
  by (simp add: ex_bax_env_def ex_ds_in_def)

lemma ex_two_ok:
  "fan_out (ex_bax_env (\<lambda>c tr. 0)) (dirname ''/out/o.subreadset.xml'')
     (toExternalFiles (HdfSubreadSet (ex_bax_env (\<lambda>c tr. 0)) [''/in/two.xml''] [])) [] []
   = (Inr [''/out/m1.1.hdfsubreadset.xml'', ''/out/m2.1.hdfsubreadset.xml''],
      [MkTemp ''/tmp/t.hdfsubreadset.xml'',
       WriteTmp ''/tmp/t.hdfsubreadset.xml'' ex_ds_none,
       LogInfo ''bax2bam --subread -o /out/m1.1 --output-xml /out/m1.1.hdfsubreadset.xml --xml /tmp/t.hdfsubreadset.xml'',
       RunCmd ''bax2bam --subread -o /out/m1.1 --output-xml /out/m1.1.hdfsubreadset.xml --xml /tmp/t.hdfsubreadset.xml'' 0,
       MkTemp ''/tmp/t.hdfsubreadset.xml'',
       WriteTmp ''/tmp/t.hdfsubreadset.xml'' ex_ds_none,
       LogInfo ''bax2bam --subread -o /out/m2.1 --output-xml /out/m2.1.hdfsubreadset.xml --xml /tmp/t.hdfsubreadset.xml'',
       RunCmd ''bax2bam --subread -o /out/m2.1 --output-xml /out/m2.1.hdfsubreadset.xml --xml /tmp/t.hdfsubreadset.xml'' 0])"
  by (simp add: ex_bax_env_def ex_ds_in_def ex_ds_fresh_def u_run_bax_to_bam_def Let_def
      dirname_def output_file_name_tmp_def path_join_def basename_def strip_two_ext_def
      drop_last2_def endswith_def bax2bam_cmd_def)

lemma ex_two_fail:
  "run_bax_to_bam (ex_bax_env ex_fail_second) ''/in/two.xml'' ''/out/o.subreadset.xml'' []
   = (Return 3,
      [MkTemp ''/tmp/t.hdfsubreadset.xml'',
       WriteTmp ''/tmp/t.hdfsubreadset.xml'' ex_ds_none,
       LogInfo ''bax2bam --subread -o /out/m1.1 --output-xml /out/m1.1.hdfsubreadset.xml --xml /tmp/t.hdfsubreadset.xml'',
       RunCmd ''bax2bam --subread -o /out/m1.1 --output-xml /out/m1.1.hdfsubreadset.xml --xml /tmp/t.hdfsubreadset.xml'' 0,
       MkTemp ''/tmp/t.hdfsubreadset.xml'',
       WriteTmp ''/tmp/t.hdfsubreadset.xml'' ex_ds_none,
       LogInfo ''bax2bam --subread -o /out/m2.1 --output-xml /out/m2.1.hdfsubreadset.xml --xml /tmp/t.hdfsubreadset.xml'',
       RunCmd ''bax2bam --subread -o /out/m2.1 --output-xml /out/m2.1.hdfsubreadset.xml --xml /tmp/t.hdfsubreadset.xml'' 3,
       LogError ''bax2bam failed''])"
  by (simp add: run_bax_to_bam_def ex_bax_env_def ex_ds_in_def ex_ds_fresh_def ex_fail_second_def
      u_run_bax_to_bam_def Let_def
      dirname_def output_file_name_tmp_def path_join_def basename_def strip_two_ext_def
      drop_last2_def endswith_def bax2bam_cmd_def)

subsection \<open>Name and description of the merged dataset\<close>

text \<open>
  Claim C1. On the multi-movie path (more than one distinct movie name), when the
  fan-out has converted every raw file, the merger returns 0 after writing one dataset
  to the output path. Its name is the name of the input dataset. When the input has a
  \<^verbatim>\<open>Description\<close> in its object metadata, the written dataset has that description
  and its metadata block is the merge of the input's block into the block of the dataset
  constructed from the intermediate files; when the input has none, the object metadata
  and the metadata block are those of the constructed dataset, unchanged.
\<close>

theorem merged_name_and_description:
  assumes multi: "1 < card (set (movieNames (HdfSubreadSet env [input_file_name] tr)))"
      and fan: "fan_out env (dirname output_file_name)
                  (toExternalFiles (HdfSubreadSet env [input_file_name] tr)) [] tr
                = (Inr ds_out_files, tr')"
  shows "(let ds_in = HdfSubreadSet env [input_file_name] tr;
              ds0 = SubreadSet env ds_out_files tr'
          in \<exists>ds. run_bax_to_bam env input_file_name output_file_name tr
                     = (Return 0, tr' @ [WriteOut output_file_name ds])
               \<and> name ds = name ds_in
               \<and> (objMetadata ds_in ''Description'' \<noteq> None \<longrightarrow>
                    objMetadata ds ''Description'' = objMetadata ds_in ''Description''
                    \<and> metadata ds = merge env (metadata ds0) (metadata ds_in))
               \<and> (objMetadata ds_in ''Description'' = None \<longrightarrow>
                    objMetadata ds = objMetadata ds0 \<and> metadata ds = metadata ds0))"
  using multi fan
  by (auto simp: run_bax_to_bam_def merged_dataset_def Let_def split: option.splits)

theorem merged_name_and_description_witness:
  "\<exists>ds. run_bax_to_bam (ex_bax_env (\<lambda>c tr. 0)) ''/in/two.xml'' ''/out/o.subreadset.xml'' []
          = (Return 0,
             [MkTemp ''/tmp/t.hdfsubreadset.xml'',
              WriteTmp ''/tmp/t.hdfsubreadset.xml'' ex_ds_none,
              LogInfo ''bax2bam --subread -o /out/m1.1 --output-xml /out/m1.1.hdfsubreadset.xml --xml /tmp/t.hdfsubreadset.xml'',
              RunCmd ''bax2bam --subread -o /out/m1.1 --output-xml /out/m1.1.hdfsubreadset.xml --xml /tmp/t.hdfsubreadset.xml'' 0,
              MkTemp ''/tmp/t.hdfsubreadset.xml'',
              WriteTmp ''/tmp/t.hdfsubreadset.xml'' ex_ds_none,
              LogInfo ''bax2bam --subread -o /out/m2.1 --output-xml /out/m2.1.hdfsubreadset.xml --xml /tmp/t.hdfsubreadset.xml'',
              RunCmd ''bax2bam --subread -o /out/m2.1 --output-xml /out/m2.1.hdfsubreadset.xml --xml /tmp/t.hdfsubreadset.xml'' 0,
              WriteOut ''/out/o.subreadset.xml'' ds])
        \<and> name ds = ''lambda_rsii''
        \<and> objMetadata ds ''Description'' = Some ''two movies''
        \<and> metadata ds = 11"
  using merged_name_and_description [OF ex_two_multi ex_two_ok]
  by (simp add: Let_def ex_bax_env_def ex_ds_in_def ex_ds_fresh_def)

subsection \<open>One movie: the converter is called once, on the original paths\<close>

text \<open>
  Claim C2. When the resource readers of the input report exactly one distinct movie
  name, the merger is the single-file converter applied to the original input and
  output paths, and nothing else. The run launches exactly one process, its last event:
  bax2bam with the original output path as \<^verbatim>\<open>--output-xml\<close> and the original input
  (for a raw \<^verbatim>\<open>.bax.h5\<close> input, its temporary dataset wrapper) as \<^verbatim>\<open>--xml\<close>.
  No dataset is written to an output path, and for an input that is not a raw
  \<^verbatim>\<open>.bax.h5\<close> file the only other event is the log line of the command: no
  intermediate per-movie dataset is asked for or created.
\<close>

theorem single_movie_converts_once:
  assumes "card (set (movieNames (HdfSubreadSet env [input_file_name] tr))) = 1"
  shows "run_bax_to_bam env input_file_name output_file_name tr
           = u_run_bax_to_bam env input_file_name output_file_name tr
         \<and> (\<exists>pre rc. snd (run_bax_to_bam env input_file_name output_file_name tr)
               = tr @ pre @
                 [RunCmd (bax2bam_cmd output_file_name
                    (if endswith input_file_name ''.bax.h5''
                     then NamedTemporaryFile env ''.hdfsubreadset.xml'' tr
                     else input_file_name)) rc]
             \<and> filter is_RunCmd pre = [] \<and> filter is_WriteOut pre = []
             \<and> (\<not> endswith input_file_name ''.bax.h5''
                  \<longrightarrow> pre = [LogInfo (bax2bam_cmd output_file_name input_file_name)]))"
proof -
  have eq: "run_bax_to_bam env input_file_name output_file_name tr
           = u_run_bax_to_bam env input_file_name output_file_name tr"
    using assms by (simp add: run_bax_to_bam_def Let_def)
  obtain oc tr' where u: "u_run_bax_to_bam env input_file_name output_file_name tr = (oc, tr')"
    by (cases "u_run_bax_to_bam env input_file_name output_file_name tr")
  from u_run_bax_to_bam_trace[OF u] eq u show ?thesis by auto
qed

theorem single_movie_converts_once_witness:
  "card (set (movieNames (HdfSubreadSet (ex_bax_env (\<lambda>c tr. 0)) [''/in/one.xml''] []))) = 1
   \<and> run_bax_to_bam (ex_bax_env (\<lambda>c tr. 0)) ''/in/one.xml'' ''/out/o.subreadset.xml'' []
       = u_run_bax_to_bam (ex_bax_env (\<lambda>c tr. 0)) ''/in/one.xml'' ''/out/o.subreadset.xml'' []
   \<and> (\<exists>rc. snd (run_bax_to_bam (ex_bax_env (\<lambda>c tr. 0)) ''/in/one.xml''
                   ''/out/o.subreadset.xml'' [])
            = [LogInfo ''bax2bam --subread -o /out/o --output-xml /out/o.subreadset.xml --xml /in/one.xml'',
               RunCmd ''bax2bam --subread -o /out/o --output-xml /out/o.subreadset.xml --xml /in/one.xml'' rc])"
proof -
  have h: "card (set (movieNames (HdfSubreadSet (ex_bax_env (\<lambda>c tr. 0)) [''/in/one.xml''] []))) = 1"
    by (simp add: ex_bax_env_def ex_ds_one_def)
  have e: "\<not> endswith ''/in/one.xml'' ''.bax.h5''"
    by (simp add: endswith_def)
  have c: "bax2bam_cmd ''/out/o.subreadset.xml'' ''/in/one.xml''
           = ''bax2bam --subread -o /out/o --output-xml /out/o.subreadset.xml --xml /in/one.xml''"
    by (simp add: bax2bam_cmd_def strip_two_ext_def drop_last2_def)
  show ?thesis
    using h single_movie_converts_once [OF h, of "''/out/o.subreadset.xml''"] e c by auto
qed

subsection \<open>A failing conversion stops the fan-out\<close>

text \<open>
  Claim C3. On the multi-movie path, when a process launched by the run (each
  per-movie conversion launches one, and returns its exit status when it is not 0)
  gives a non-zero exit status, the merger returns that status; the failing launch is
  followed by the error log line only, so no further conversion runs; every earlier
  launch gave 0; and no dataset is written to the output.
\<close>

theorem fan_out_fails_fast:
  assumes multi: "1 < card (set (movieNames (HdfSubreadSet env [input_file_name] tr)))"
      and run: "run_bax_to_bam env input_file_name output_file_name tr = (oc, tr')"
      and ev: "RunCmd c rc \<in> set (drop (length tr) tr')"
      and rc: "rc \<noteq> 0"
  shows "oc = Return rc
         \<and> (\<exists>pre. tr' = tr @ pre @ [RunCmd c rc, LogError ''bax2bam failed'']
               \<and> (\<forall>c' rc'. RunCmd c' rc' \<in> set pre \<longrightarrow> rc' = 0))
         \<and> filter is_WriteOut (drop (length tr) tr') = []"
proof -
  let ?ds_in = "HdfSubreadSet env [input_file_name] tr"
  obtain res tr1 where
    fan: "fan_out env (dirname output_file_name) (toExternalFiles ?ds_in) [] tr = (res, tr1)"
    by (cases "fan_out env (dirname output_file_name) (toExternalFiles ?ds_in) [] tr")
  from fan_out_trace[OF fan] obtain new where
    t1: "tr1 = tr @ new" and nw: "filter is_WriteOut new = []" and
    sh: "(case res of
            Inr fs \<Rightarrow> no_fail_runs new
          | Inl (Return rc) \<Rightarrow> rc \<noteq> 0 \<and>
              (\<exists>pre c. new = pre @ [RunCmd c rc, LogError ''bax2bam failed'']
                 \<and> no_fail_runs pre)
          | Inl (Raise e) \<Rightarrow> no_fail_runs new)" by blast
  show ?thesis
  proof (cases res)
    case (Inr fs)
    with multi run fan t1 obtain ds where "tr' = tr @ new @ [WriteOut output_file_name ds]"
      by (auto simp: run_bax_to_bam_def Let_def)
    with ev have "RunCmd c rc \<in> set new" by simp
    with sh Inr rc show ?thesis by (simp add: no_fail_runs_def)
  next
    case (Inl o1)
    with multi run fan t1 have oc: "oc = o1" and tr': "tr' = tr @ new"
      by (auto simp: run_bax_to_bam_def Let_def)
    from ev tr' have mem: "RunCmd c rc \<in> set new" by simp
    show ?thesis
    proof (cases o1)
      case (Raise e)
      with sh Inl mem rc show ?thesis by (simp add: no_fail_runs_def)
    next
      case (Return r)
      with sh Inl obtain pre c0 where
        n: "new = pre @ [RunCmd c0 r, LogError ''bax2bam failed'']" and np: "no_fail_runs pre"
        by auto
      from mem n np rc have "c = c0 \<and> rc = r" by (auto simp: no_fail_runs_def)
      with n np tr' oc Return nw show ?thesis by (auto simp: no_fail_runs_def)
    qed
  qed
qed

theorem fan_out_fails_fast_witness:
  "fst (run_bax_to_bam (ex_bax_env ex_fail_second) ''/in/two.xml'' ''/out/o.subreadset.xml'' [])
     = Return 3
   \<and> filter is_WriteOut
       (snd (run_bax_to_bam (ex_bax_env ex_fail_second) ''/in/two.xml''
               ''/out/o.subreadset.xml'' [])) = []
   \<and> length (filter is_RunCmd
       (snd (run_bax_to_bam (ex_bax_env ex_fail_second) ''/in/two.xml''
               ''/out/o.subreadset.xml'' []))) = 2"
proof -
  have ev: "RunCmd ''bax2bam --subread -o /out/m2.1 --output-xml /out/m2.1.hdfsubreadset.xml --xml /tmp/t.hdfsubreadset.xml'' 3
      \<in> set (drop (length ([] :: nat dataset event list))
          [MkTemp ''/tmp/t.hdfsubreadset.xml'',
       WriteTmp ''/tmp/t.hdfsubreadset.xml'' ex_ds_none,
       LogInfo ''bax2bam --subread -o /out/m1.1 --output-xml /out/m1.1.hdfsubreadset.xml --xml /tmp/t.hdfsubreadset.xml'',
       RunCmd ''bax2bam --subread -o /out/m1.1 --output-xml /out/m1.1.hdfsubreadset.xml --xml /tmp/t.hdfsubreadset.xml'' 0,
       MkTemp ''/tmp/t.hdfsubreadset.xml'',
       WriteTmp ''/tmp/t.hdfsubreadset.xml'' ex_ds_none,
       LogInfo ''bax2bam --subread -o /out/m2.1 --output-xml /out/m2.1.hdfsubreadset.xml --xml /tmp/t.hdfsubreadset.xml'',
       RunCmd ''bax2bam --subread -o /out/m2.1 --output-xml /out/m2.1.hdfsubreadset.xml --xml /tmp/t.hdfsubreadset.xml'' 3,
       LogError ''bax2bam failed''])"
    by simp
  have nz: "(3::int) \<noteq> 0" by simp
  from fan_out_fails_fast [OF ex_two_multi ex_two_fail ev nz]
  show ?thesis by (simp add: ex_two_fail)
qed

subsection \<open>No movie at all: the single-file path\<close>

text \<open>
  Claim C10. When the resource readers report no movie name at all, the merger takes
  the single-file path on the original input and output paths; more generally it does
  so whenever there is at most one distinct movie name, the fan-out being entered only
  for more than one.
\<close>

theorem no_movie_takes_single_path:
  "(movieNames (HdfSubreadSet env [input_file_name] tr) = []
      \<longrightarrow> run_bax_to_bam env input_file_name output_file_name tr
            = u_run_bax_to_bam env input_file_name output_file_name tr)
   \<and> (card (set (movieNames (HdfSubreadSet env [input_file_name] tr))) \<le> 1
      \<longrightarrow> run_bax_to_bam env input_file_name output_file_name tr
            = u_run_bax_to_bam env input_file_name output_file_name tr)"
  by (simp add: run_bax_to_bam_def Let_def)

theorem no_movie_takes_single_path_witness:
  "movieNames (HdfSubreadSet (ex_bax_env (\<lambda>c tr. 0)) [''/in/none.xml''] []) = []
   \<and> card (set (movieNames (HdfSubreadSet (ex_bax_env (\<lambda>c tr. 0)) [''/in/none.xml''] []))) \<le> 1
   \<and> run_bax_to_bam (ex_bax_env (\<lambda>c tr. 0)) ''/in/none.xml'' ''/out/o.subreadset.xml'' []
       = u_run_bax_to_bam (ex_bax_env (\<lambda>c tr. 0)) ''/in/none.xml'' ''/out/o.subreadset.xml'' []"
proof -
  have h: "movieNames (HdfSubreadSet (ex_bax_env (\<lambda>c tr. 0)) [''/in/none.xml''] []) = []"
    by (simp add: ex_bax_env_def ex_ds_none_def)
  show ?thesis
    using h no_movie_takes_single_path [of "ex_bax_env (\<lambda>c tr. 0)" "''/in/none.xml''" "[]" "''/out/o.subreadset.xml''"]
    by simp
qed

section \<open>Properties of the barcoded-resource rebuilder\<close>

subsection \<open>Rejected and accepted inputs, traces of the loop\<close>

lemma run_bam_to_bam_rejected:
  assumes "\<not> (score_mode \<in> {''symmetric'', ''asymmetric''}
              \<and> length (bc_resourceReaders (BarcodeSet env barcode_set_file tr)) \<le> 1
              \<and> bc_toExternalFiles (BarcodeSet env barcode_set_file tr) \<noteq> [])"
  shows "\<exists>e. run_bam_to_bam env subread_set_file barcode_set_file output_file_name nproc
               score_mode tr = (Raise e, tr)"
proof (cases "score_mode = ''symmetric'' \<or> score_mode = ''asymmetric''")
  case False
  then show ?thesis by (simp add: run_bam_to_bam_def)
next
  case True
  note sm = True
  show ?thesis
  proof (cases "length (bc_resourceReaders (BarcodeSet env barcode_set_file tr)) \<le> 1")
    case False
    then show ?thesis by (simp add: run_bam_to_bam_def Let_def)
  next
    case True
    with sm assms have "bc_toExternalFiles (BarcodeSet env barcode_set_file tr) = []" by auto
    with True sm show ?thesis unfolding run_bam_to_bam_def Let_def by auto
  qed
qed

lemma run_bam_to_bam_accepted:
  assumes "score_mode \<in> {''symmetric'', ''asymmetric''}"
      and "length (bc_resourceReaders (BarcodeSet env barcode_set_file tr)) \<le> 1"
      and "bc_toExternalFiles (BarcodeSet env barcode_set_file tr) = bf # others"
      and "rebuild env subread_set_file barcode_set_file output_file_name nproc score_mode bf
             (externalResources (SubreadSet_in env subread_set_file tr)) [] tr = (res, tr1)"
  shows "run_bam_to_bam env subread_set_file barcode_set_file output_file_name nproc
           score_mode tr
         = (case res of
              Inl oc \<Rightarrow> (oc, tr1)
            | Inr resources \<Rightarrow>
                (Return 0,
                 tr1 @ [WriteOut output_file_name
                          (updateCounts env
                             (populateMetaTypes env
                                \<lparr>new_externalResources = resources,
                                 new_filters = clearCallbacks env
                                    (filters (SubreadSet_in env subread_set_file tr))\<rparr>)
                             tr1)]))"
proof -
  have sm: "score_mode = ''symmetric'' \<or> score_mode = ''asymmetric''" using assms(1) by simp
  have le: "\<not> 1 < length (bc_resourceReaders (BarcodeSet env barcode_set_file tr))"
    using assms(2) by simp
  show ?thesis
    unfolding run_bam_to_bam_def Let_def
    using sm le assms(3) assms(4) by (auto split: sum.splits)
qed

lemma rebuild_trace:
  "rebuild env ssf bsf outp nproc sm bf resources acc tr = (res, tr') \<Longrightarrow>
   \<exists>new. tr' = tr @ new \<and> filter is_WriteOut new = [] \<and>
     (case res of
        Inr rs \<Rightarrow> no_fail_runs new
      | Inl (Return rc) \<Rightarrow> rc \<noteq> 0 \<and> (\<exists>pre c. new = pre @ [RunCmd c rc] \<and> no_fail_runs pre)
      | Inl (Raise e) \<Rightarrow> no_fail_runs new)"
proof (induction resources arbitrary: acc tr)
  case Nil
  then show ?case by (auto simp: no_fail_runs_def)
next
  case (Cons r rest)
  show ?case
  proof (cases "bam r")
    case None
    with Cons.prems show ?thesis by (auto simp: no_fail_runs_def)
  next
    case (Some b)
    note b = Some
    show ?thesis
    proof (cases "scraps r")
      case None
      with b Cons.prems show ?thesis by (auto simp: no_fail_runs_def)
    next
      case (Some s)
      define prefix where "prefix = new_prefix outp b"
      define cmd where "cmd = bam2bam_cmd nproc prefix bf sm (resolve ssf b) (resolve ssf s)"
      define rc where "rc = run_cmd env cmd (tr @ [LogInfo cmd])"
      define tr2 where "tr2 = tr @ [LogInfo cmd, RunCmd cmd rc]"
      show ?thesis
      proof (cases "rc = 0")
        case False
        with Cons.prems b Some have "res = Inl (Return rc)" "tr' = tr2"
          by (auto simp: Let_def prefix_def cmd_def rc_def tr2_def)
        then show ?thesis using False
          by (auto simp: tr2_def no_fail_runs_def intro: exI[of _ "[LogInfo cmd]"])
      next
        case True
        note rc0 = True
        show ?thesis
        proof (cases "isfile env (prefix @ ''.subreads.bam'') tr2")
          case False
          with Cons.prems b Some rc0
          have "res = Inl (Raise (AssertionError (''Missing '' @ prefix @ ''.subreads.bam'')))"
               "tr' = tr2"
            by (auto simp: Let_def prefix_def cmd_def rc_def tr2_def)
          then show ?thesis using rc0 by (auto simp: tr2_def no_fail_runs_def)
        next
          case True
          with Cons.prems b Some rc0
          have step: "rebuild env ssf bsf outp nproc sm bf rest
                        (acc @ [new_resource prefix bsf]) tr2 = (res, tr')"
            by (auto simp: Let_def prefix_def cmd_def rc_def tr2_def)
          from Cons.IH[OF step] obtain new where
            n1: "tr' = tr2 @ new" and n2: "filter is_WriteOut new = []" and
            n3: "(case res of
                    Inr rs \<Rightarrow> no_fail_runs new
                  | Inl (Return rc) \<Rightarrow> rc \<noteq> 0 \<and>
                      (\<exists>pre c. new = pre @ [RunCmd c rc] \<and> no_fail_runs pre)
                  | Inl (Raise e) \<Rightarrow> no_fail_runs new)" by blast
          let ?all = "[LogInfo cmd, RunCmd cmd rc] @ new"
          have t: "tr' = tr @ ?all" using n1 by (simp add: tr2_def)
          have w: "filter is_WriteOut ?all = []" using n2 by simp
          have c: "(case res of
                      Inr rs \<Rightarrow> no_fail_runs ?all
                    | Inl (Return rc') \<Rightarrow> rc' \<noteq> 0 \<and>
                        (\<exists>pre' c. ?all = pre' @ [RunCmd c rc'] \<and> no_fail_runs pre')
                    | Inl (Raise e) \<Rightarrow> no_fail_runs ?all)"
          proof (cases res)
            case (Inr rs)
            then show ?thesis using n3 rc0 by (auto simp: no_fail_runs_def)
          next
            case (Inl oc)
            show ?thesis
            proof (cases oc)
              case (Raise e)
              then show ?thesis using Inl n3 rc0 by (auto simp: no_fail_runs_def)
            next
              case (Return r')
              with Inl n3 obtain p c where r0: "r' \<noteq> 0" and
                nn: "new = p @ [RunCmd c r']" and np: "no_fail_runs p"
                by auto
              have "?all = ([LogInfo cmd, RunCmd cmd rc] @ p) @ [RunCmd c r']"
                using nn by simp
              moreover have "no_fail_runs ([LogInfo cmd, RunCmd cmd rc] @ p)"
                using rc0 np by (auto simp: no_fail_runs_def)
              ultimately show ?thesis using Inl Return r0 by auto
            qed
          qed
          show ?thesis using t w c by blast
        qed
      qed
    qed
  qed
qed

lemma rebuild_stops_at_missing_scraps:
  "scraps r = None \<Longrightarrow>
   rebuild env ssf bsf outp nproc sm bf (pre @ r # post) acc tr = (res, tr') \<Longrightarrow>
   \<exists>oc new. res = Inl oc \<and> oc \<noteq> Return 0 \<and> tr' = tr @ new
     \<and> filter is_WriteOut new = [] \<and> length (filter is_RunCmd new) \<le> length pre"
proof (induction pre arbitrary: acc tr)
  case Nil
  then show ?case by (auto split: option.splits)
next
  case (Cons p pre)
  show ?case
  proof (cases "bam p")
    case None
    with Cons.prems show ?thesis by auto
  next
    case (Some b)
    note b = Some
    show ?thesis
    proof (cases "scraps p")
      case None
      with b Cons.prems show ?thesis by auto
    next
      case (Some s)
      define prefix where "prefix = new_prefix outp b"
      define cmd where "cmd = bam2bam_cmd nproc prefix bf sm (resolve ssf b) (resolve ssf s)"
      define rc where "rc = run_cmd env cmd (tr @ [LogInfo cmd])"
      define tr2 where "tr2 = tr @ [LogInfo cmd, RunCmd cmd rc]"
      consider (fail) "rc \<noteq> 0"
        | (missing) "rc = 0" "\<not> isfile env (prefix @ ''.subreads.bam'') tr2"
        | (continue) "rc = 0" "isfile env (prefix @ ''.subreads.bam'') tr2" by blast
      then show ?thesis
      proof cases
        case fail
        with Cons.prems b Some have "res = Inl (Return rc)" "tr' = tr2"
          by (auto simp: Let_def prefix_def cmd_def rc_def tr2_def)
        then show ?thesis using fail by (auto simp: tr2_def)
      next
        case missing
        with Cons.prems b Some
        have "res = Inl (Raise (AssertionError (''Missing '' @ prefix @ ''.subreads.bam'')))"
             "tr' = tr2"
          by (auto simp: Let_def prefix_def cmd_def rc_def tr2_def)
        then show ?thesis by (auto simp: tr2_def)
      next
        case continue
        with Cons.prems b Some
        have step: "rebuild env ssf bsf outp nproc sm bf (pre @ r # post)
                      (acc @ [new_resource prefix bsf]) tr2 = (res, tr')"
          by (auto simp: Let_def prefix_def cmd_def rc_def tr2_def)
        from Cons.IH[OF Cons.prems(1) step] obtain oc new where
          "res = Inl oc" "oc \<noteq> Return 0" "tr' = tr2 @ new" "filter is_WriteOut new = []"
          "length (filter is_RunCmd new) \<le> length pre" by blast
        then show ?thesis
          by (auto simp: tr2_def intro!: exI[of _ "[LogInfo cmd, RunCmd cmd rc] @ new"])
      qed
    qed
  qed
qed

lemma rebuild_reaches_missing_scraps:
  assumes ok: "\<forall>c t. run_cmd env c t = 0" "\<forall>p t. isfile env p t"
      and r: "bam r \<noteq> None" "scraps r = None"
  shows "\<forall>x \<in> set pre. bam x \<noteq> None \<and> scraps x \<noteq> None \<Longrightarrow>
   \<exists>new. rebuild env ssf bsf outp nproc sm bf (pre @ r # post) acc tr
           = (Inl (Raise (TypeError ''The input SubreadSet must include scraps.'')), tr @ new)
     \<and> length (filter is_RunCmd new) = length pre"
proof (induction pre arbitrary: acc tr)
  case Nil
  then show ?case using r by auto
next
  case (Cons p pre)
  then obtain b s where b: "bam p = Some b" and s: "scraps p = Some s" by auto
  define prefix where "prefix = new_prefix outp b"
  define cmd where "cmd = bam2bam_cmd nproc prefix bf sm (resolve ssf b) (resolve ssf s)"
  define tr2 where "tr2 = tr @ [LogInfo cmd, RunCmd cmd 0]"
  have step: "rebuild env ssf bsf outp nproc sm bf ((p # pre) @ r # post) acc tr
      = rebuild env ssf bsf outp nproc sm bf (pre @ r # post)
          (acc @ [new_resource prefix bsf]) tr2"
    using b s ok by (simp add: Let_def prefix_def cmd_def tr2_def)
  from Cons.prems have "\<forall>x \<in> set pre. bam x \<noteq> None \<and> scraps x \<noteq> None" by simp
  from Cons.IH[OF this, of "acc @ [new_resource prefix bsf]" tr2] obtain new where
    "rebuild env ssf bsf outp nproc sm bf (pre @ r # post) (acc @ [new_resource prefix bsf]) tr2
       = (Inl (Raise (TypeError ''The input SubreadSet must include scraps.'')), tr2 @ new)"
    "length (filter is_RunCmd new) = length pre" by blast
  then show ?case unfolding step
    by (auto simp: tr2_def intro!: exI[of _ "[LogInfo cmd, RunCmd cmd 0] @ new"])
qed

subsection \<open>Example runs\<close>

lemma ex_cmd_m1:
  "bam2bam_cmd 4 (new_prefix ''/out/o.subreadset.xml'' ''m1.subreads.bam'') ''/bc/b.fasta''
     ''symmetric'' (resolve ''/in/missing.xml'' ''m1.subreads.bam'')
     (resolve ''/in/missing.xml'' ''m1.scraps.bam'')
   = ''bam2bam -j 4 -b 4 -o /out/m1_barcoded --barcodes /bc/b.fasta --scoreMode symmetric /in/m1.subreads.bam /in/m1.scraps.bam''"
  by (simp add: bam2bam_cmd_def new_prefix_def resolve_def isabs_def path_join_def dirname_def
      basename_def re_sub_def str_int_def str_nat.simps)

lemma ex_missing_run:
  "run_bam_to_bam (ex_bam_env ex_ok) ''/in/missing.xml'' ''/bc/one.xml''
     ''/out/o.subreadset.xml'' 4 ''symmetric'' []
   = (Raise (TypeError ''The input SubreadSet must include scraps.''),
      [LogInfo ''bam2bam -j 4 -b 4 -o /out/m1_barcoded --barcodes /bc/b.fasta --scoreMode symmetric /in/m1.subreads.bam /in/m1.scraps.bam'',
       RunCmd ''bam2bam -j 4 -b 4 -o /out/m1_barcoded --barcodes /bc/b.fasta --scoreMode symmetric /in/m1.subreads.bam /in/m1.scraps.bam'' 0])"
  by (simp add: run_bam_to_bam_def ex_bam_env_def ex_ok_def ex_pair_def ex_pair_no_scraps_def
      Let_def ex_cmd_m1)

lemma ex_fail_run:
  "run_bam_to_bam (ex_bam_env ex_fail_second) ''/in/s.xml'' ''/bc/one.xml''
     ''/out/o.subreadset.xml'' 4 ''symmetric'' []
   = (Return 3,
      [LogInfo ''bam2bam -j 4 -b 4 -o /out/m1_barcoded --barcodes /bc/b.fasta --scoreMode symmetric /in/m1.subreads.bam /in/m1.scraps.bam'',
       RunCmd ''bam2bam -j 4 -b 4 -o /out/m1_barcoded --barcodes /bc/b.fasta --scoreMode symmetric /in/m1.subreads.bam /in/m1.scraps.bam'' 0,
       LogInfo ''bam2bam -j 4 -b 4 -o /out/m1_barcoded --barcodes /bc/b.fasta --scoreMode symmetric /in/m1.subreads.bam /in/m1.scraps.bam'',
       RunCmd ''bam2bam -j 4 -b 4 -o /out/m1_barcoded --barcodes /bc/b.fasta --scoreMode symmetric /in/m1.subreads.bam /in/m1.scraps.bam'' 3])"
proof -
  have c: "bam2bam_cmd 4 (new_prefix ''/out/o.subreadset.xml'' ''m1.subreads.bam'') ''/bc/b.fasta''
     ''symmetric'' (resolve ''/in/s.xml'' ''m1.subreads.bam'')
     (resolve ''/in/s.xml'' ''m1.scraps.bam'')
   = ''bam2bam -j 4 -b 4 -o /out/m1_barcoded --barcodes /bc/b.fasta --scoreMode symmetric /in/m1.subreads.bam /in/m1.scraps.bam''"
    by (simp add: bam2bam_cmd_def new_prefix_def resolve_def isabs_def path_join_def dirname_def
      basename_def re_sub_def str_int_def str_nat.simps)
  show ?thesis
    by (simp add: run_bam_to_bam_def ex_bam_env_def ex_fail_second_def ex_pair_def Let_def c)
qed

subsection \<open>Score mode and barcode set are checked first\<close>

text \<open>
  Claim C4. With a score mode other than \<^verbatim>\<open>symmetric\<close> and \<^verbatim>\<open>asymmetric\<close>,
  or with a barcode set that has more than one resource reader (one for each
  reference file), the rebuilder raises: \<^verbatim>\<open>ValueError\<close> for the score mode, checked
  first, \<^verbatim>\<open>NotImplementedError\<close> for the barcode set. The trace is unchanged: no
  process was launched and nothing was written.
\<close>

theorem rejects_before_any_process:
  assumes "score_mode \<notin> {''symmetric'', ''asymmetric''}
           \<or> 1 < length (bc_resourceReaders (BarcodeSet env barcode_set_file tr))"
  shows "run_bam_to_bam env subread_set_file barcode_set_file output_file_name nproc score_mode tr
         = (Raise (if score_mode \<notin> {''symmetric'', ''asymmetric''}
                   then ValueError (''Unrecognized score mode '' @ [CHR 0x27] @ score_mode
                                     @ [CHR 0x27])
                   else NotImplementedError ''Multi-FASTA BarcodeSet input is not supported.''),
            tr)"
  using assms by (auto simp: run_bam_to_bam_def Let_def)

theorem rejects_before_any_process_witness:
  "run_bam_to_bam (ex_bam_env ex_ok) ''/in/s.xml'' ''/bc/one.xml'' ''/out/o.subreadset.xml'' 4
     ''fast'' []
   = (Raise (ValueError (''Unrecognized score mode '' @ [CHR 0x27] @ ''fast'' @ [CHR 0x27])), [])
   \<and> run_bam_to_bam (ex_bam_env ex_ok) ''/in/s.xml'' ''/bc/two.xml'' ''/out/o.subreadset.xml'' 4
       ''symmetric'' []
     = (Raise (NotImplementedError ''Multi-FASTA BarcodeSet input is not supported.''), [])"
proof -
  have a: "''fast'' \<notin> {''symmetric'', ''asymmetric''}
           \<or> 1 < length (bc_resourceReaders (BarcodeSet (ex_bam_env ex_ok) ''/bc/one.xml'' []))"
    by simp
  have b: "''symmetric'' \<notin> {''symmetric'', ''asymmetric''}
           \<or> 1 < length (bc_resourceReaders (BarcodeSet (ex_bam_env ex_ok) ''/bc/two.xml'' []))"
    by (simp add: ex_bam_env_def)
  show ?thesis
    using rejects_before_any_process [OF a, of "''/in/s.xml''" "''/out/o.subreadset.xml''" 4]
      rejects_before_any_process [OF b, of "''/in/s.xml''" "''/out/o.subreadset.xml''" 4]
    by simp
qed

subsection \<open>A pair without scraps\<close>

text \<open>
  Claim C5 as stated says that a pair without scraps makes the rebuilder fail before any
  external process is launched. It does not when the pair is not the first: with a
  complete pair followed by a pair without scraps, the splitter has run on the first
  pair when the \<^verbatim>\<open>TypeError\<close> is raised.
\<close>

theorem missing_scraps_after_launch_counterexample:
  "scraps ex_pair_no_scraps = None
   \<and> externalResources (SubreadSet_in (ex_bam_env ex_ok) ''/in/missing.xml'' [])
       = [ex_pair, ex_pair_no_scraps]
   \<and> run_bam_to_bam (ex_bam_env ex_ok) ''/in/missing.xml'' ''/bc/one.xml''
       ''/out/o.subreadset.xml'' 4 ''symmetric'' []
     = (Raise (TypeError ''The input SubreadSet must include scraps.''),
        [LogInfo ''bam2bam -j 4 -b 4 -o /out/m1_barcoded --barcodes /bc/b.fasta --scoreMode symmetric /in/m1.subreads.bam /in/m1.scraps.bam'',
         RunCmd ''bam2bam -j 4 -b 4 -o /out/m1_barcoded --barcodes /bc/b.fasta --scoreMode symmetric /in/m1.subreads.bam /in/m1.scraps.bam'' 0])"
  by (simp add: ex_missing_run) (simp add: ex_bam_env_def ex_pair_no_scraps_def)

text \<open>
  Claim C5, amended. When a resource pair of the input dataset has no scraps file, the
  rebuilder does not succeed and writes no output dataset. The splitter is launched at
  most once for each pair that precedes that pair, never for that pair or a later one:
  pairs are checked one at a time, each just before its own splitter run, so the pairs
  in front have been split already. When the score mode and the barcode set are
  accepted, every pair in front is complete, every splitter run succeeds and leaves its
  output, and the pair has its primary file, the outcome is the \<^verbatim>\<open>TypeError\<close>, after
  exactly one launch for each pair in front; that is before any process only when the
  pair is the first of the dataset.
\<close>

theorem missing_scraps_fails_without_output:
  assumes res: "externalResources (SubreadSet_in env subread_set_file tr) = pre @ r # post"
      and r: "scraps r = None"
      and run: "run_bam_to_bam env subread_set_file barcode_set_file output_file_name nproc
                  score_mode tr = (oc, tr')"
  shows "oc \<noteq> Return 0
         \<and> (\<exists>new. tr' = tr @ new \<and> filter is_WriteOut new = []
               \<and> length (filter is_RunCmd new) \<le> length pre
               \<and> ((\<forall>c t. run_cmd env c t = 0) \<and> (\<forall>p t. isfile env p t)
                   \<and> score_mode \<in> {''symmetric'', ''asymmetric''}
                   \<and> length (bc_resourceReaders (BarcodeSet env barcode_set_file tr)) \<le> 1
                   \<and> bc_toExternalFiles (BarcodeSet env barcode_set_file tr) \<noteq> []
                   \<and> (\<forall>x \<in> set pre. bam x \<noteq> None \<and> scraps x \<noteq> None) \<and> bam r \<noteq> None
                   \<longrightarrow> oc = Raise (TypeError ''The input SubreadSet must include scraps.'')
                       \<and> length (filter is_RunCmd new) = length pre))"
proof (cases "score_mode \<in> {''symmetric'', ''asymmetric''}
              \<and> length (bc_resourceReaders (BarcodeSet env barcode_set_file tr)) \<le> 1
              \<and> bc_toExternalFiles (BarcodeSet env barcode_set_file tr) \<noteq> []")
  case False
  from run_bam_to_bam_rejected[OF False, of subread_set_file output_file_name nproc] run
  obtain e where e: "oc = Raise e" "tr' = tr @ []" by auto
  have a: "oc \<noteq> Return 0" using e by simp
  have b: "filter is_WriteOut ([] :: 'a new_subread_set event list) = []" by simp
  have c: "length (filter is_RunCmd ([] :: 'a new_subread_set event list)) \<le> length pre"
    by simp
  have imp: "(\<forall>c t. run_cmd env c t = 0) \<and> (\<forall>p t. isfile env p t)
       \<and> score_mode \<in> {''symmetric'', ''asymmetric''}
       \<and> length (bc_resourceReaders (BarcodeSet env barcode_set_file tr)) \<le> 1
       \<and> bc_toExternalFiles (BarcodeSet env barcode_set_file tr) \<noteq> []
       \<and> (\<forall>x \<in> set pre. bam x \<noteq> None \<and> scraps x \<noteq> None) \<and> bam r \<noteq> None
       \<longrightarrow> oc = Raise (TypeError ''The input SubreadSet must include scraps.'')
           \<and> length (filter is_RunCmd ([] :: 'a new_subread_set event list)) = length pre"
  proof (intro impI, elim conjE)
    assume "score_mode \<in> {''symmetric'', ''asymmetric''}"
       "length (bc_resourceReaders (BarcodeSet env barcode_set_file tr)) \<le> 1"
       "bc_toExternalFiles (BarcodeSet env barcode_set_file tr) \<noteq> []"
    with False have False by blast
    then show "oc = Raise (TypeError ''The input SubreadSet must include scraps.'')
           \<and> length (filter is_RunCmd ([] :: 'a new_subread_set event list)) = length pre" ..
  qed
  from e(2) b c imp
  have "\<exists>new. tr' = tr @ new \<and> filter is_WriteOut new = []
               \<and> length (filter is_RunCmd new) \<le> length pre
               \<and> ((\<forall>c t. run_cmd env c t = 0) \<and> (\<forall>p t. isfile env p t)
                   \<and> score_mode \<in> {''symmetric'', ''asymmetric''}
                   \<and> length (bc_resourceReaders (BarcodeSet env barcode_set_file tr)) \<le> 1
                   \<and> bc_toExternalFiles (BarcodeSet env barcode_set_file tr) \<noteq> []
                   \<and> (\<forall>x \<in> set pre. bam x \<noteq> None \<and> scraps x \<noteq> None) \<and> bam r \<noteq> None
                   \<longrightarrow> oc = Raise (TypeError ''The input SubreadSet must include scraps.'')
                       \<and> length (filter is_RunCmd new) = length pre)"
    by (intro exI[of _ "[]"] conjI)
  with a show ?thesis ..
next
  case True
  then obtain bf others where
    bf: "bc_toExternalFiles (BarcodeSet env barcode_set_file tr) = bf # others"
    by (cases "bc_toExternalFiles (BarcodeSet env barcode_set_file tr)") auto
  obtain rs tr1 where
    rb: "rebuild env subread_set_file barcode_set_file output_file_name nproc score_mode bf
           (pre @ r # post) [] tr = (rs, tr1)"
    by (cases "rebuild env subread_set_file barcode_set_file output_file_name nproc score_mode bf
           (pre @ r # post) [] tr")
  from rebuild_stops_at_missing_scraps[OF r rb] obtain o1 new where
    st: "rs = Inl o1" "o1 \<noteq> Return 0" "tr1 = tr @ new" "filter is_WriteOut new = []"
        "length (filter is_RunCmd new) \<le> length pre" by blast
  have acc: "score_mode \<in> {''symmetric'', ''asymmetric''}"
      "length (bc_resourceReaders (BarcodeSet env barcode_set_file tr)) \<le> 1"
    using True by blast+
  have rb': "rebuild env subread_set_file barcode_set_file output_file_name nproc score_mode bf
           (externalResources (SubreadSet_in env subread_set_file tr)) [] tr = (rs, tr1)"
    using rb res by simp
  from run_bam_to_bam_accepted[OF acc bf rb'] run st(1)
  have eq: "oc = o1" "tr' = tr @ new" using st(3) by simp_all
  have sharp: "oc = Raise (TypeError ''The input SubreadSet must include scraps.'')
                 \<and> length (filter is_RunCmd new) = length pre"
    if h: "\<forall>c t. run_cmd env c t = 0" "\<forall>p t. isfile env p t"
          "\<forall>x \<in> set pre. bam x \<noteq> None \<and> scraps x \<noteq> None" "bam r \<noteq> None"
  proof -
    from rebuild_reaches_missing_scraps[OF h(1) h(2) h(4) r h(3),
        of subread_set_file barcode_set_file output_file_name nproc score_mode bf post "[]" tr]
    obtain new' where
      "rebuild env subread_set_file barcode_set_file output_file_name nproc score_mode bf
         (pre @ r # post) [] tr
       = (Inl (Raise (TypeError ''The input SubreadSet must include scraps.'')), tr @ new')"
      "length (filter is_RunCmd new') = length pre" by blast
    with rb st eq show ?thesis by simp
  qed
  have a: "oc \<noteq> Return 0" using eq st by simp
  have imp: "(\<forall>c t. run_cmd env c t = 0) \<and> (\<forall>p t. isfile env p t)
       \<and> score_mode \<in> {''symmetric'', ''asymmetric''}
       \<and> length (bc_resourceReaders (BarcodeSet env barcode_set_file tr)) \<le> 1
       \<and> bc_toExternalFiles (BarcodeSet env barcode_set_file tr) \<noteq> []
       \<and> (\<forall>x \<in> set pre. bam x \<noteq> None \<and> scraps x \<noteq> None) \<and> bam r \<noteq> None
       \<longrightarrow> oc = Raise (TypeError ''The input SubreadSet must include scraps.'')
           \<and> length (filter is_RunCmd new) = length pre"
  proof (intro impI, elim conjE)
    assume h: "\<forall>c t. run_cmd env c t = 0" "\<forall>p t. isfile env p t"
          "\<forall>x \<in> set pre. bam x \<noteq> None \<and> scraps x \<noteq> None" "bam r \<noteq> None"
    show "oc = Raise (TypeError ''The input SubreadSet must include scraps.'')
           \<and> length (filter is_RunCmd new) = length pre"
      using sharp[OF h] .
  qed
  from eq(2) st(4) st(5) imp
  have "\<exists>new. tr' = tr @ new \<and> filter is_WriteOut new = []
               \<and> length (filter is_RunCmd new) \<le> length pre
               \<and> ((\<forall>c t. run_cmd env c t = 0) \<and> (\<forall>p t. isfile env p t)
                   \<and> score_mode \<in> {''symmetric'', ''asymmetric''}
                   \<and> length (bc_resourceReaders (BarcodeSet env barcode_set_file tr)) \<le> 1
                   \<and> bc_toExternalFiles (BarcodeSet env barcode_set_file tr) \<noteq> []
                   \<and> (\<forall>x \<in> set pre. bam x \<noteq> None \<and> scraps x \<noteq> None) \<and> bam r \<noteq> None
                   \<longrightarrow> oc = Raise (TypeError ''The input SubreadSet must include scraps.'')
                       \<and> length (filter is_RunCmd new) = length pre)"
    by (intro exI[of _ new] conjI)
  with a show ?thesis ..
qed

theorem missing_scraps_fails_without_output_witness:
  "fst (run_bam_to_bam (ex_bam_env ex_ok) ''/in/missing.xml'' ''/bc/one.xml''
          ''/out/o.subreadset.xml'' 4 ''symmetric'' [])
     = Raise (TypeError ''The input SubreadSet must include scraps.'')
   \<and> filter is_WriteOut
       (snd (run_bam_to_bam (ex_bam_env ex_ok) ''/in/missing.xml'' ''/bc/one.xml''
               ''/out/o.subreadset.xml'' 4 ''symmetric'' [])) = []
   \<and> length (filter is_RunCmd
       (snd (run_bam_to_bam (ex_bam_env ex_ok) ''/in/missing.xml'' ''/bc/one.xml''
               ''/out/o.subreadset.xml'' 4 ''symmetric'' []))) = length [ex_pair]"
proof -
  have res: "externalResources (SubreadSet_in (ex_bam_env ex_ok) ''/in/missing.xml'' [])
             = [ex_pair] @ ex_pair_no_scraps # []"
    by (simp add: ex_bam_env_def)
  have r: "scraps ex_pair_no_scraps = None" by (simp add: ex_pair_no_scraps_def)
  have env: "\<forall>c t. run_cmd (ex_bam_env ex_ok) c t = 0" "\<forall>p t. isfile (ex_bam_env ex_ok) p t"
    "length (bc_resourceReaders (BarcodeSet (ex_bam_env ex_ok) ''/bc/one.xml'' [])) \<le> 1"
    "bc_toExternalFiles (BarcodeSet (ex_bam_env ex_ok) ''/bc/one.xml'' []) \<noteq> []"
    by (simp_all add: ex_bam_env_def ex_ok_def)
  have prs: "\<forall>x \<in> set [ex_pair]. bam x \<noteq> None \<and> scraps x \<noteq> None" "bam ex_pair_no_scraps \<noteq> None"
    by (simp_all add: ex_pair_def ex_pair_no_scraps_def)
  have sm: "''symmetric'' \<in> {''symmetric'', ''asymmetric''}" by simp
  from missing_scraps_fails_without_output [OF res r ex_missing_run] env prs sm
  show ?thesis by (simp add: ex_missing_run)
qed

subsection \<open>A failing splitter run\<close>

text \<open>
  Claim C6. When a process launched by the rebuilder gives a non-zero exit status, the
  rebuilder returns that status; the failing launch is the last event of the run, every
  earlier launch gave 0, and no output dataset is written.
\<close>

theorem splitter_failure_stops_rebuild:
  assumes run: "run_bam_to_bam env subread_set_file barcode_set_file output_file_name nproc
                  score_mode tr = (oc, tr')"
      and ev: "RunCmd c rc \<in> set (drop (length tr) tr')"
      and rc: "rc \<noteq> 0"
  shows "oc = Return rc
         \<and> (\<exists>pre. tr' = tr @ pre @ [RunCmd c rc]
               \<and> (\<forall>c' rc'. RunCmd c' rc' \<in> set pre \<longrightarrow> rc' = 0))
         \<and> filter is_WriteOut (drop (length tr) tr') = []"
proof (cases "score_mode \<in> {''symmetric'', ''asymmetric''}
              \<and> length (bc_resourceReaders (BarcodeSet env barcode_set_file tr)) \<le> 1
              \<and> bc_toExternalFiles (BarcodeSet env barcode_set_file tr) \<noteq> []")
  case False
  from run_bam_to_bam_rejected[OF False, of subread_set_file output_file_name nproc] run
  have "tr' = tr" by auto
  with ev show ?thesis by simp
next
  case True
  then obtain bf others where
    bf: "bc_toExternalFiles (BarcodeSet env barcode_set_file tr) = bf # others"
    by (cases "bc_toExternalFiles (BarcodeSet env barcode_set_file tr)") auto
  have acc: "score_mode \<in> {''symmetric'', ''asymmetric''}"
      "length (bc_resourceReaders (BarcodeSet env barcode_set_file tr)) \<le> 1"
    using True by blast+
  let ?rs = "externalResources (SubreadSet_in env subread_set_file tr)"
  obtain res tr1 where
    rb: "rebuild env subread_set_file barcode_set_file output_file_name nproc score_mode bf
           ?rs [] tr = (res, tr1)"
    by (cases "rebuild env subread_set_file barcode_set_file output_file_name nproc score_mode bf
           ?rs [] tr")
  note unf = run_bam_to_bam_accepted[OF acc bf rb]
  from rebuild_trace[OF rb] obtain new where
    t1: "tr1 = tr @ new" and nw: "filter is_WriteOut new = []" and
    sh: "(case res of
            Inr rs \<Rightarrow> no_fail_runs new
          | Inl (Return rc) \<Rightarrow> rc \<noteq> 0 \<and> (\<exists>pre c. new = pre @ [RunCmd c rc] \<and> no_fail_runs pre)
          | Inl (Raise e) \<Rightarrow> no_fail_runs new)" by blast
  show ?thesis
  proof (cases res)
    case (Inr rs)
    with run unf t1 have "\<exists>d. tr' = tr @ new @ [WriteOut output_file_name d]"
      by auto
    then obtain d where "tr' = tr @ new @ [WriteOut output_file_name d]" by blast
    with ev have "RunCmd c rc \<in> set new" by simp
    with sh Inr rc show ?thesis by (simp add: no_fail_runs_def)
  next
    case (Inl o1)
    with run unf t1 have oc: "oc = o1" and tr': "tr' = tr @ new"
      by simp_all
    from ev tr' have mem: "RunCmd c rc \<in> set new" by simp
    show ?thesis
    proof (cases o1)
      case (Raise e)
      with sh Inl mem rc show ?thesis by (simp add: no_fail_runs_def)
    next
      case (Return r)
      with sh Inl obtain pre c0 where
        n: "new = pre @ [RunCmd c0 r]" and np: "no_fail_runs pre"
        by auto
      from mem n np rc have "c = c0 \<and> rc = r" by (auto simp: no_fail_runs_def)
      with n np tr' oc Return nw show ?thesis by (auto simp: no_fail_runs_def)
    qed
  qed
qed

theorem splitter_failure_stops_rebuild_witness:
  "fst (run_bam_to_bam (ex_bam_env ex_fail_second) ''/in/s.xml'' ''/bc/one.xml''
          ''/out/o.subreadset.xml'' 4 ''symmetric'' []) = Return 3
   \<and> filter is_WriteOut
       (snd (run_bam_to_bam (ex_bam_env ex_fail_second) ''/in/s.xml'' ''/bc/one.xml''
               ''/out/o.subreadset.xml'' 4 ''symmetric'' [])) = []
   \<and> length (filter is_RunCmd
       (snd (run_bam_to_bam (ex_bam_env ex_fail_second) ''/in/s.xml'' ''/bc/one.xml''
               ''/out/o.subreadset.xml'' 4 ''symmetric'' []))) = 2"
proof -
  have ev: "RunCmd ''bam2bam -j 4 -b 4 -o /out/m1_barcoded --barcodes /bc/b.fasta --scoreMode symmetric /in/m1.subreads.bam /in/m1.scraps.bam'' 3
      \<in> set (drop (length ([] :: nat new_subread_set event list))
      [LogInfo ''bam2bam -j 4 -b 4 -o /out/m1_barcoded --barcodes /bc/b.fasta --scoreMode symmetric /in/m1.subreads.bam /in/m1.scraps.bam'',
       RunCmd ''bam2bam -j 4 -b 4 -o /out/m1_barcoded --barcodes /bc/b.fasta --scoreMode symmetric /in/m1.subreads.bam /in/m1.scraps.bam'' 0,
       LogInfo ''bam2bam -j 4 -b 4 -o /out/m1_barcoded --barcodes /bc/b.fasta --scoreMode symmetric /in/m1.subreads.bam /in/m1.scraps.bam'',
       RunCmd ''bam2bam -j 4 -b 4 -o /out/m1_barcoded --barcodes /bc/b.fasta --scoreMode symmetric /in/m1.subreads.bam /in/m1.scraps.bam'' 3])"
    by simp
  have nz: "(3::int) \<noteq> 0" by simp
  from splitter_failure_stops_rebuild [OF ex_fail_run ev nz]
  show ?thesis by (simp add: ex_fail_run)
qed

subsection \<open>The new output prefix\<close>

text \<open>
  Claim C9: the new prefix is the base name of the primary file with its
  \<^verbatim>\<open>.subreads.bam\<close> suffix replaced by \<^verbatim>\<open>_barcoded\<close>, in the directory of the
  output file, and a base name without that suffix is left as it is. The code passes
  \<^verbatim>\<open>".subreads.bam"\<close> to \<^verbatim>\<open>re.sub\<close> as a regular expression: its dots match any
  character and it matches anywhere in the base name, every match being replaced. So
  \<^verbatim>\<open>my_subreads_bam.subreads.bam\<close> gives \<^verbatim>\<open>my_barcoded_barcoded\<close> where the claim
  gives \<^verbatim>\<open>my_subreads_bam_barcoded\<close>, and the base names
  \<^verbatim>\<open>m1.subreads.bam.bak\<close> and \<^verbatim>\<open>m1_subreads_bam\<close>, which do not end in the
  suffix, are changed.
\<close>

theorem new_prefix_pattern_is_regex:
  "new_prefix ''/out/o.subreadset.xml'' ''/data/my_subreads_bam.subreads.bam''
     = ''/out/my_barcoded_barcoded''
   \<and> new_prefix ''/out/o.subreadset.xml'' ''/data/m1.subreads.bam.bak''
     = ''/out/m1_barcoded.bak''
   \<and> new_prefix ''/out/o.subreadset.xml'' ''/data/m1_subreads_bam''
     = ''/out/m1_barcoded''"
  by (simp add: new_prefix_def path_join_def dirname_def basename_def re_sub_def)

section \<open>Properties of the extraction filter\<close>

subsection \<open>The trace of a successful run\<close>

lemma write_records_trace:
  "write_records outp L recs tr
   = tr @ map (WriteOut outp) (filter (\<lambda>r. L \<le> 0 \<or> L < int (length (sequence r))) recs)"
  by (induction recs arbitrary: tr) auto

lemma filter_is_WriteOut_map [simp]: "filter is_WriteOut (map (WriteOut p) xs) = map (WriteOut p) xs"
  by (induction xs) auto

lemma filter_is_Remove_map [simp]: "filter is_Remove (map (WriteOut p) xs) = []"
  by (induction xs) auto


lemma run_bam_to_fastx_success:
  fixes tr :: "'z fastx_record_scheme event list"
  assumes run: "run_bam_to_fastx env program_name fastx_reader input_file_name output_file_name
                  min_subread_length tr = (Return 0, tr')"
  shows "\<exists>pre. tr' = tr @ pre @ OpenOut output_file_name
                  # map (WriteOut output_file_name)
                      (filter (\<lambda>r. min_subread_length \<le> 0
                                    \<or> min_subread_length < int (length (sequence r)))
                         (fastx_reader
                            (u_open_file env
                               (tmp_out_name (NamedTemporaryFile env [] tr) program_name)
                               (tr @ pre))))
                  @ [Remove (tmp_out_name (NamedTemporaryFile env [] tr) program_name)]
         \<and> filter is_WriteOut pre = [] \<and> filter is_Remove pre = []
         \<and> (min_subread_length < 0 \<longrightarrow> (\<exists>msg. LogWarn msg \<in> set pre))"
proof -
  define prefix where "prefix = NamedTemporaryFile env [] tr"
  define cmd where "cmd = join_str '' '' [program_name, ''-o'', prefix, input_file_name]"
  define tmp_out where "tmp_out = tmp_out_name prefix program_name"
  define logs :: "'z fastx_record_scheme event list" where "logs =
      (if min_subread_length > 0
       then [LogInfo (''Filtering subreads by minimum length = '' @ str_int min_subread_length)]
       else if min_subread_length < 0
       then [LogWarn (''min_subread_length = '' @ str_int min_subread_length @ '', ignoring'')]
       else [])"
  define pre where "pre = [MkTemp prefix, LogInfo cmd, RunCmd cmd 0,
                           LogInfo (''raw output in '' @ tmp_out)] @ logs"
  have rc: "run_cmd env cmd (tr @ [MkTemp prefix, LogInfo cmd]) = 0"
    using run unfolding run_bam_to_fastx_def Let_def prefix_def cmd_def
    by (auto split: if_splits)
  have isf: "isfile env tmp_out (tr @ [MkTemp prefix, LogInfo cmd, RunCmd cmd 0])"
    using run rc unfolding run_bam_to_fastx_def Let_def prefix_def cmd_def tmp_out_def
    by (auto split: if_splits)
  have tr': "tr' = tr @ pre @ OpenOut output_file_name
                  # map (WriteOut output_file_name)
                      (filter (\<lambda>r. min_subread_length \<le> 0
                                    \<or> min_subread_length < int (length (sequence r)))
                         (fastx_reader (u_open_file env tmp_out (tr @ pre))))
                  @ [Remove tmp_out]"
    using run rc isf
    unfolding run_bam_to_fastx_def Let_def
    by (auto simp: write_records_trace prefix_def cmd_def tmp_out_def pre_def logs_def
        split: if_splits)
  have nw: "filter is_WriteOut pre = []" "filter is_Remove pre = []"
    by (simp_all add: pre_def logs_def)
  have warn: "min_subread_length < 0 \<longrightarrow> (\<exists>msg. LogWarn msg \<in> set pre)"
    by (auto simp: pre_def logs_def)
  show ?thesis
    using tr' nw warn unfolding tmp_out_def prefix_def by blast
qed

lemma ex_fastx_run:
  "run_bam_to_fastx (ex_fastx_env ex_ok) ''bam2fasta'' (\<lambda>h. h) ''/in/s.xml'' ''/out/o.fasta'' 100 []
   = (Return 0,
      [MkTemp ''/tmp/t'', LogInfo ''bam2fasta -o /tmp/t /in/s.xml'',
       RunCmd ''bam2fasta -o /tmp/t /in/s.xml'' 0,
       LogInfo ''raw output in /tmp/t.fasta.gz'',
       LogInfo ''Filtering subreads by minimum length = 100'',
       OpenOut ''/out/o.fasta'',
       WriteOut ''/out/o.fasta'' \<lparr>header = ''r150'', sequence = replicate 150 (CHR ''C'')\<rparr>,
       WriteOut ''/out/o.fasta'' \<lparr>header = ''r300'', sequence = replicate 300 (CHR ''G'')\<rparr>,
       Remove ''/tmp/t.fasta.gz''])"
proof -
  have s: "str_int 100 = ''100''" by (simp add: str_int_def str_nat.simps)
  show ?thesis
    by (simp add: run_bam_to_fastx_def ex_fastx_env_def ex_ok_def ex_records_def Let_def
      tmp_out_name_def re_sub_def u_open_file_def endswith_def s)
qed

lemma ex_fastx_fail_run:
  "run_bam_to_fastx (ex_fastx_env ex_fail_first) ''bam2fasta'' (\<lambda>h. h) ''/in/s.xml''
     ''/out/o.fasta'' 0 []
   = (Return 1,
      [MkTemp ''/tmp/t'', LogInfo ''bam2fasta -o /tmp/t /in/s.xml'',
       RunCmd ''bam2fasta -o /tmp/t /in/s.xml'' 1])"
  by (simp add: run_bam_to_fastx_def ex_fastx_env_def ex_fail_first_def Let_def)

subsection \<open>Which records are written\<close>

text \<open>
  Claim C7. When the extraction succeeds, the records written to the output file are,
  in order, the parsed records of the raw output that pass the test: the threshold is
  at most 0, or the sequence is strictly longer than the threshold. Nothing else is
  written to the output. With a negative threshold a warning is logged and the run
  still succeeds; with a threshold of at most 0 every record is written, so the counts
  are equal; with a positive threshold every written record is strictly longer than it
  and there are at most as many written records as parsed ones.
\<close>

theorem filter_keeps_long_records:
  fixes tr :: "'z fastx_record_scheme event list"
  assumes run: "run_bam_to_fastx env program_name fastx_reader input_file_name output_file_name
                  min_subread_length tr = (Return 0, tr')"
  shows "\<exists>pre recs.
           recs = fastx_reader
                    (u_open_file env
                       (tmp_out_name (NamedTemporaryFile env [] tr) program_name) (tr @ pre))
         \<and> tr' = tr @ pre @ OpenOut output_file_name
                  # map (WriteOut output_file_name)
                      (filter (\<lambda>r. min_subread_length \<le> 0
                                    \<or> min_subread_length < int (length (sequence r))) recs)
                  @ [Remove (tmp_out_name (NamedTemporaryFile env [] tr) program_name)]
         \<and> filter is_WriteOut pre = []
         \<and> (min_subread_length < 0 \<longrightarrow> (\<exists>msg. LogWarn msg \<in> set pre))
         \<and> (min_subread_length \<le> 0 \<longrightarrow>
              filter (\<lambda>r. min_subread_length \<le> 0
                            \<or> min_subread_length < int (length (sequence r))) recs = recs)
         \<and> (0 < min_subread_length \<longrightarrow>
              (\<forall>r \<in> set (filter (\<lambda>r. min_subread_length \<le> 0
                            \<or> min_subread_length < int (length (sequence r))) recs).
                 min_subread_length < int (length (sequence r)))
              \<and> length (filter (\<lambda>r. min_subread_length \<le> 0
                            \<or> min_subread_length < int (length (sequence r))) recs)
                  \<le> length recs)"
proof -
  from run_bam_to_fastx_success[OF run] obtain pre where
    t: "tr' = tr @ pre @ OpenOut output_file_name
                  # map (WriteOut output_file_name)
                      (filter (\<lambda>r. min_subread_length \<le> 0
                                    \<or> min_subread_length < int (length (sequence r)))
                         (fastx_reader
                            (u_open_file env
                               (tmp_out_name (NamedTemporaryFile env [] tr) program_name)
                               (tr @ pre))))
                  @ [Remove (tmp_out_name (NamedTemporaryFile env [] tr) program_name)]"
    and nw: "filter is_WriteOut pre = []"
    and warn: "min_subread_length < 0 \<longrightarrow> (\<exists>msg. LogWarn msg \<in> set pre)" by blast
  define recs where "recs = fastx_reader
                    (u_open_file env
                       (tmp_out_name (NamedTemporaryFile env [] tr) program_name) (tr @ pre))"
  have all: "min_subread_length \<le> 0 \<longrightarrow>
              filter (\<lambda>r. min_subread_length \<le> 0
                            \<or> min_subread_length < int (length (sequence r))) recs = recs"
    by simp
  have some: "0 < min_subread_length \<longrightarrow>
              (\<forall>r \<in> set (filter (\<lambda>r. min_subread_length \<le> 0
                            \<or> min_subread_length < int (length (sequence r))) recs).
                 min_subread_length < int (length (sequence r)))
              \<and> length (filter (\<lambda>r. min_subread_length \<le> 0
                            \<or> min_subread_length < int (length (sequence r))) recs)
                  \<le> length recs"
    by auto
  from t have t': "tr' = tr @ pre @ OpenOut output_file_name
                  # map (WriteOut output_file_name)
                      (filter (\<lambda>r. min_subread_length \<le> 0
                                    \<or> min_subread_length < int (length (sequence r))) recs)
                  @ [Remove (tmp_out_name (NamedTemporaryFile env [] tr) program_name)]"
    by (simp add: recs_def)
  show ?thesis
    using recs_def t' nw warn all some by blast
qed

theorem filter_keeps_long_records_witness:
  "filter is_WriteOut
     (snd (run_bam_to_fastx (ex_fastx_env ex_ok) ''bam2fasta'' (\<lambda>h. h) ''/in/s.xml''
             ''/out/o.fasta'' 100 []))
   = [WriteOut ''/out/o.fasta'' \<lparr>header = ''r150'', sequence = replicate 150 (CHR ''C'')\<rparr>,
      WriteOut ''/out/o.fasta'' \<lparr>header = ''r300'', sequence = replicate 300 (CHR ''G'')\<rparr>]
   \<and> fst (run_bam_to_fastx (ex_fastx_env ex_ok) ''bam2fasta'' (\<lambda>h. h) ''/in/s.xml''
             ''/out/o.fasta'' 100 []) = Return 0"
  using filter_keeps_long_records [OF ex_fastx_run]
  by (simp add: ex_fastx_run)

subsection \<open>Removal of the temporary file\<close>

text \<open>
  Claim C8 as stated says that the temporary raw output is deleted on every exit path,
  early failure returns included. When the external program exits with a non-zero
  status the converter returns that status at once: here the raw file exists and
  nothing removes it.
\<close>

theorem temp_file_left_on_failure_counterexample:
  "run_bam_to_fastx (ex_fastx_env ex_fail_first) ''bam2fasta'' (\<lambda>h. h) ''/in/s.xml''
     ''/out/o.fasta'' 0 []
   = (Return 1,
      [MkTemp ''/tmp/t'', LogInfo ''bam2fasta -o /tmp/t /in/s.xml'',
       RunCmd ''bam2fasta -o /tmp/t /in/s.xml'' 1])
   \<and> isfile (ex_fastx_env ex_fail_first) ''/tmp/t.fasta.gz''
       [MkTemp ''/tmp/t'', LogInfo ''bam2fasta -o /tmp/t /in/s.xml'',
        RunCmd ''bam2fasta -o /tmp/t /in/s.xml'' 1]"
  by (simp add: ex_fastx_fail_run) (simp add: ex_fastx_env_def)

text \<open>
  Claim C8, amended. The temporary raw output is removed exactly when the converter
  succeeds: the removal is then the last event of the run, after the scan and the
  writes, and the only removal. On every other exit (a non-zero exit status of the
  external program, a missing raw output) nothing is removed: the removal is the last
  statement of the success branch, not a cleanup block.
\<close>

theorem temp_file_removed_on_success_only:
  fixes tr :: "'z fastx_record_scheme event list"
  assumes run: "run_bam_to_fastx env program_name fastx_reader input_file_name output_file_name
                  min_subread_length tr = (oc, tr')"
  shows "(oc = Return 0 \<longrightarrow>
            (\<exists>pre. tr' = tr @ pre
                       @ [Remove (tmp_out_name (NamedTemporaryFile env [] tr) program_name)]
                  \<and> filter is_Remove pre = []))
         \<and> (oc \<noteq> Return 0 \<longrightarrow> filter is_Remove (drop (length tr) tr') = [])"
proof (cases "oc = Return 0")
  case True
  with run have r0: "run_bam_to_fastx env program_name fastx_reader input_file_name
                       output_file_name min_subread_length tr = (Return 0, tr')" by simp
  from run_bam_to_fastx_success[OF r0] obtain pre where
    t: "tr' = tr @ pre @ OpenOut output_file_name
                  # map (WriteOut output_file_name)
                      (filter (\<lambda>r. min_subread_length \<le> 0
                                    \<or> min_subread_length < int (length (sequence r)))
                         (fastx_reader
                            (u_open_file env
                               (tmp_out_name (NamedTemporaryFile env [] tr) program_name)
                               (tr @ pre))))
                  @ [Remove (tmp_out_name (NamedTemporaryFile env [] tr) program_name)]"
    and nr: "filter is_Remove pre = []" by blast
  define mid where "mid = pre @ OpenOut output_file_name
                  # map (WriteOut output_file_name)
                      (filter (\<lambda>r. min_subread_length \<le> 0
                                    \<or> min_subread_length < int (length (sequence r)))
                         (fastx_reader
                            (u_open_file env
                               (tmp_out_name (NamedTemporaryFile env [] tr) program_name)
                               (tr @ pre))))"
  have "tr' = tr @ mid @ [Remove (tmp_out_name (NamedTemporaryFile env [] tr) program_name)]"
    using t by (simp add: mid_def)
  moreover have "filter is_Remove mid = []" using nr by (simp add: mid_def)
  ultimately show ?thesis using True by blast
next
  case False
  with run show ?thesis
    unfolding run_bam_to_fastx_def Let_def
    by (auto split: if_splits)
qed

theorem temp_file_removed_on_success_only_witness:
  "(\<exists>pre. snd (run_bam_to_fastx (ex_fastx_env ex_ok) ''bam2fasta'' (\<lambda>h. h) ''/in/s.xml''
              ''/out/o.fasta'' 100 [])
          = pre @ [Remove ''/tmp/t.fasta.gz''] \<and> filter is_Remove pre = [])
   \<and> filter is_Remove
       (snd (run_bam_to_fastx (ex_fastx_env ex_fail_first) ''bam2fasta'' (\<lambda>h. h) ''/in/s.xml''
               ''/out/o.fasta'' 0 [])) = []"
proof -
  have n: "tmp_out_name (NamedTemporaryFile (ex_fastx_env ex_ok) [] []) ''bam2fasta''
           = ''/tmp/t.fasta.gz''"
    by (simp add: tmp_out_name_def ex_fastx_env_def re_sub_def)
  have ne: "Return 1 \<noteq> Return 0" by simp
  from temp_file_removed_on_success_only [OF ex_fastx_run] obtain pre where
    p: "snd (run_bam_to_fastx (ex_fastx_env ex_ok) ''bam2fasta'' (\<lambda>h. h) ''/in/s.xml''
              ''/out/o.fasta'' 100 [])
        = [] @ pre @ [Remove (tmp_out_name (NamedTemporaryFile (ex_fastx_env ex_ok) [] [])
                                ''bam2fasta'')]"
       "filter is_Remove pre = []"
    unfolding ex_fastx_run snd_conv by blast
  have a: "\<exists>pre. snd (run_bam_to_fastx (ex_fastx_env ex_ok) ''bam2fasta'' (\<lambda>h. h) ''/in/s.xml''
              ''/out/o.fasta'' 100 [])
          = pre @ [Remove ''/tmp/t.fasta.gz''] \<and> filter is_Remove pre = []"
    using p unfolding n append_Nil by blast
  from temp_file_removed_on_success_only [OF ex_fastx_fail_run] ne
  have b: "filter is_Remove
       (drop (length ([] :: fastx_record event list))
         (snd (run_bam_to_fastx (ex_fastx_env ex_fail_first) ''bam2fasta'' (\<lambda>h. h)
                 ''/in/s.xml'' ''/out/o.fasta'' 0 []))) = []"
    unfolding ex_fastx_fail_run snd_conv by blast
  from a b show ?thesis by simp
qed

end
